theory Spec2Isabelle
  imports Complex_Main "HOL-Library.Sublist"
begin

section \<open>Errors\<close>

text \<open>
  Every \<^verbatim>\<open>raise\<close> of \<^verbatim>\<open>project.py\<close> and every exception a Python built-in throws
  on the paths modelled here is a value of this type. The sites that raise the generic
  \<^verbatim>\<open>Exception(message)\<close> get one constructor each, named after the message.
\<close>

datatype error =
    NotValidStatement \<comment> \<open>AssertionError("Statement is not a valid SQL statement!")\<close>
  | QueryNotShorter \<comment> \<open>AssertionError("Query didn't get shorter.")\<close>
  | AssertionError \<comment> \<open>a failed \<^verbatim>\<open>assert\<close>\<close>
  | BeginInsideTransaction \<comment> \<open>"Beginning transaction attempted within an open transaction!"\<close>
  | UnsupportedTransactionMode \<comment> \<open>"Transaction mode attempted is one not supported!"\<close>
  | CommitWithoutBegin \<comment> \<open>"Committing transaction attempted without a prior BEGIN TRANSACTION"\<close>
  | RollbackOutsideTransaction \<comment> \<open>"Rolling back transaction attempted outside of manual transaction"\<close>
  | CreateExistingTable \<comment> \<open>"Trying to create a pre-existing table"\<close>
  | CreateExistingView \<comment> \<open>"Trying to create a pre-existing view"\<close>
  | ViewOfMissingTable \<comment> \<open>"Trying to create view for a table that does not exist"\<close>
  | DropMissingTable \<comment> \<open>"Trying to drop a table that is not in the database"\<close>
  | SharedWhileExclusive \<comment> \<open>"Trying to gain a shared lock while another connection has exclusive!"\<close>
  | ReservedWhileReserved \<comment> \<open>"Trying to gain a reserved lock while another reserved lock is claimed!"\<close>
  | ReservedWhileExclusive \<comment> \<open>"Trying to gain a reserved lock while an exclusive lock is claimed!"\<close>
  | ExclusiveWhileExclusive \<comment> \<open>"Trying to gain an exclusive lock while another exclusive lock is claimed!"\<close>
  | ExclusiveWhileShared \<comment> \<open>"Trying to gain an exclusive lock while there are shared locks claimed."\<close>
  | ExclusiveWhileReserved \<comment> \<open>"Trying to gain an exclusive lock while another reserved lock is claimed!"\<close>
  | IndexError | KeyError | ValueError | TypeError | AttributeError | RecursionError

section \<open>LockSystem\<close>

text \<open>
  The three counters are Python integers, so they are \<^typ>\<open>int\<close>: the \<^verbatim>\<open>remove_*\<close>
  methods subtract without a check and can take a counter below zero.
\<close>

record LockSystem =
  ls_name :: string
  shared :: int
  reserved :: int
  exclusive :: int

definition LockSystem_init :: "string \<Rightarrow> LockSystem" where
  "LockSystem_init database_name =
     \<lparr>ls_name = database_name, shared = 0, reserved = 0, exclusive = 0\<rparr>"

definition has_shared :: "LockSystem \<Rightarrow> bool" where
  "has_shared ls \<longleftrightarrow> shared ls \<noteq> 0"

definition has_reserved :: "LockSystem \<Rightarrow> bool" where
  "has_reserved ls \<longleftrightarrow> reserved ls \<noteq> 0"

definition has_exclusive :: "LockSystem \<Rightarrow> bool" where
  "has_exclusive ls \<longleftrightarrow> exclusive ls \<noteq> 0"

text \<open>
  A method that raises does so before it writes a counter, so an error carries no state:
  the caller keeps the lock system it had. A successful \<^verbatim>\<open>add_*\<close> returns \<^verbatim>\<open>True\<close>.
\<close>

definition add_shared :: "LockSystem \<Rightarrow> error + bool \<times> LockSystem" where
  "add_shared ls =
     (if \<not> has_exclusive ls then Inr (True, ls\<lparr>shared := shared ls + 1\<rparr>)
      else Inl SharedWhileExclusive)"

definition remove_shared :: "LockSystem \<Rightarrow> LockSystem" where
  "remove_shared ls = ls\<lparr>shared := shared ls - 1\<rparr>"

text \<open>
  \<^verbatim>\<open>current_lock\<close> is \<^verbatim>\<open>None\<close> or a string; \<^verbatim>\<open>if current_lock and ...\<close> also
  rejects the empty string.
\<close>

definition add_reserved :: "LockSystem \<Rightarrow> string option \<Rightarrow> error + bool \<times> LockSystem" where
  "add_reserved ls current_lock =
     (if has_reserved ls then Inl ReservedWhileReserved
      else if has_exclusive ls then Inl ReservedWhileExclusive
      else
        let ls1 = (if current_lock \<noteq> None \<and> current_lock \<noteq> Some [] \<and> current_lock = Some ''shared''
                   then remove_shared ls else ls)
        in Inr (True, ls1\<lparr>reserved := reserved ls1 + 1\<rparr>))"

definition remove_reserved :: "LockSystem \<Rightarrow> LockSystem" where
  "remove_reserved ls = ls\<lparr>reserved := reserved ls - 1\<rparr>"

definition add_exclusive :: "LockSystem \<Rightarrow> string option \<Rightarrow> error + bool \<times> LockSystem" where
  "add_exclusive ls current_lock =
     (if has_exclusive ls then Inl ExclusiveWhileExclusive
      else if has_shared ls then Inl ExclusiveWhileShared
      else if has_reserved ls then
        (if current_lock \<noteq> None \<and> current_lock \<noteq> Some [] \<and> current_lock = Some ''reserved''
         then Inr (True, ls\<lparr>reserved := reserved ls - 1, exclusive := exclusive ls + 1\<rparr>)
         else Inl ExclusiveWhileReserved)
      else Inr (True, ls\<lparr>exclusive := exclusive ls + 1\<rparr>))"

definition remove_exclusive :: "LockSystem \<Rightarrow> LockSystem" where
  "remove_exclusive ls = ls\<lparr>exclusive := exclusive ls - 1\<rparr>"

text \<open>
  \<^verbatim>\<open>add_lock\<close> with a lock type that is none of the three names falls off the end of
  the method and returns \<^verbatim>\<open>None\<close>. Every caller only tests the result for truth, so
  that result is \<^term>\<open>False\<close> here.
\<close>

definition add_lock :: "LockSystem \<Rightarrow> string \<Rightarrow> string option \<Rightarrow> error + bool \<times> LockSystem" where
  "add_lock ls lock_type current_lock =
     (if current_lock \<noteq> None \<and> current_lock \<noteq> Some [] \<and> current_lock = Some lock_type
      then Inr (True, ls)
      else if lock_type = ''shared'' then add_shared ls
      else if lock_type = ''reserved'' then add_reserved ls current_lock
      else if lock_type = ''exclusive'' then add_exclusive ls current_lock
      else Inr (False, ls))"

definition remove_lock :: "LockSystem \<Rightarrow> string option \<Rightarrow> LockSystem" where
  "remove_lock ls lock_type =
     (if lock_type = None then ls
      else if lock_type = Some ''shared'' then remove_shared ls
      else if lock_type = Some ''reserved'' then remove_reserved ls
      else if lock_type = Some ''exclusive'' then remove_exclusive ls
      else ls)"

subsection \<open>Connections sharing one lock system\<close>

text \<open>
  The lock system does not record who holds what; each connection remembers its own lock
  in \<^verbatim>\<open>transaction_lock\<close>. A run of the lock system is therefore a lock system together
  with the lock every connection (numbered by \<^typ>\<open>nat\<close>) believes it holds. A connection
  calls \<^verbatim>\<open>add_lock\<close> with its own lock as \<^verbatim>\<open>current_lock\<close>, or without that argument
  as the BEGIN branch of \<^verbatim>\<open>Connection.execute\<close> does, and on success records the lock
  it asked for; it calls \<^verbatim>\<open>remove_lock\<close> with the lock it holds and then holds none.
\<close>

inductive lock_run :: "LockSystem \<Rightarrow> (nat \<Rightarrow> string option) \<Rightarrow> bool" where
  fresh: "lock_run (LockSystem_init nm) (\<lambda>_. None)"
| added: "lock_run ls held \<Longrightarrow> current_lock = held c \<or> current_lock = None \<Longrightarrow>
     add_lock ls lock_type current_lock = Inr (True, ls') \<Longrightarrow>
     lock_run ls' (held(c := Some lock_type))"
| removed: "lock_run ls held \<Longrightarrow> held c = Some lock_type \<Longrightarrow>
     lock_run (remove_lock ls (Some lock_type)) (held(c := None))"

definition holders :: "(nat \<Rightarrow> string option) \<Rightarrow> string \<Rightarrow> nat set" where
  "holders held l = {c. held c = Some l}"

definition lock_inv :: "LockSystem \<Rightarrow> (nat \<Rightarrow> string option) \<Rightarrow> bool" where
  "lock_inv ls held \<longleftrightarrow>
     finite {c. held c \<noteq> None} \<and>
     int (card (holders held ''shared'')) \<le> shared ls \<and>
     int (card (holders held ''reserved'')) \<le> reserved ls \<and>
     int (card (holders held ''exclusive'')) \<le> exclusive ls \<and>
     reserved ls \<le> 1 \<and> exclusive ls \<le> 1 \<and>
     (exclusive ls = 1 \<longrightarrow> shared ls = 0 \<and> reserved ls = 0)"

section \<open>Python values and built-ins\<close>

text \<open>
  The values the program handles: \<^verbatim>\<open>None\<close>, integers, floats, strings and tuples.
  Tokens, cells, column names, column types and table names are all such values, because
  the program stores tokens wherever it needs them. A float is the real number its
  literal denotes; rounding to a binary64 and overflow to infinity are not modelled. A
  string is a list of \<^typ>\<open>char\<close>, so its code points are below 256.
\<close>

datatype pyval = PNone | PInt int | PFloat real | PStr string | PTuple "pyval list"

datatype cmp = LT | EQ | GT

text \<open>Python's \<^verbatim>\<open>==\<close>: numbers compare by value, tuples element by element.\<close>

fun py_eq :: "pyval \<Rightarrow> pyval \<Rightarrow> bool"
  and py_eq_list :: "pyval list \<Rightarrow> pyval list \<Rightarrow> bool" where
  "py_eq PNone PNone = True"
| "py_eq (PInt a) (PInt b) = (a = b)"
| "py_eq (PInt a) (PFloat b) = (of_int a = b)"
| "py_eq (PFloat a) (PInt b) = (a = of_int b)"
| "py_eq (PFloat a) (PFloat b) = (a = b)"
| "py_eq (PStr a) (PStr b) = (a = b)"
| "py_eq (PTuple xs) (PTuple ys) = py_eq_list xs ys"
| "py_eq _ _ = False"
| "py_eq_list [] [] = True"
| "py_eq_list (x # xs) (y # ys) = (py_eq x y \<and> py_eq_list xs ys)"
| "py_eq_list _ _ = False"

text \<open>Strings are ordered by code point, as Python orders them.\<close>

fun str_compare :: "string \<Rightarrow> string \<Rightarrow> cmp" where
  "str_compare [] [] = EQ"
| "str_compare [] (y # ys) = LT"
| "str_compare (x # xs) [] = GT"
| "str_compare (x # xs) (y # ys) =
     (if (of_char x :: nat) < of_char y then LT
      else if (of_char y :: nat) < of_char x then GT
      else str_compare xs ys)"

definition real_compare :: "real \<Rightarrow> real \<Rightarrow> cmp" where
  "real_compare a b = (if a < b then LT else if b < a then GT else EQ)"

text \<open>
  The ordering behind \<^verbatim>\<open><\<close>, \<^verbatim>\<open><=\<close>, \<^verbatim>\<open>>\<close> and \<^verbatim>\<open>>=\<close>; \<^term>\<open>None\<close> is the
  TypeError Python raises for operands it cannot order (\<^verbatim>\<open>None\<close> with anything, a
  number with a string). Tuples are ordered by their first pair of elements that are
  not \<^verbatim>\<open>==\<close>, or by length when there is none.
\<close>

fun py_compare :: "pyval \<Rightarrow> pyval \<Rightarrow> cmp option"
  and py_compare_list :: "pyval list \<Rightarrow> pyval list \<Rightarrow> cmp option" where
  "py_compare (PInt a) (PInt b) = Some (real_compare (of_int a) (of_int b))"
| "py_compare (PInt a) (PFloat b) = Some (real_compare (of_int a) b)"
| "py_compare (PFloat a) (PInt b) = Some (real_compare a (of_int b))"
| "py_compare (PFloat a) (PFloat b) = Some (real_compare a b)"
| "py_compare (PStr a) (PStr b) = Some (str_compare a b)"
| "py_compare (PTuple xs) (PTuple ys) = py_compare_list xs ys"
| "py_compare _ _ = None"
| "py_compare_list [] [] = Some EQ"
| "py_compare_list [] (y # ys) = Some LT"
| "py_compare_list (x # xs) [] = Some GT"
| "py_compare_list (x # xs) (y # ys) =
     (if py_eq x y then py_compare_list xs ys else py_compare x y)"

text \<open>The comparison operators, raising TypeError where Python does.\<close>

definition py_lt :: "pyval \<Rightarrow> pyval \<Rightarrow> error + bool" where
  "py_lt a b = (case py_compare a b of None \<Rightarrow> Inl TypeError | Some c \<Rightarrow> Inr (c = LT))"

definition py_le :: "pyval \<Rightarrow> pyval \<Rightarrow> error + bool" where
  "py_le a b = (case py_compare a b of None \<Rightarrow> Inl TypeError | Some c \<Rightarrow> Inr (c \<noteq> GT))"

definition py_gt :: "pyval \<Rightarrow> pyval \<Rightarrow> error + bool" where
  "py_gt a b = (case py_compare a b of None \<Rightarrow> Inl TypeError | Some c \<Rightarrow> Inr (c = GT))"

definition py_ge :: "pyval \<Rightarrow> pyval \<Rightarrow> error + bool" where
  "py_ge a b = (case py_compare a b of None \<Rightarrow> Inl TypeError | Some c \<Rightarrow> Inr (c \<noteq> LT))"

text \<open>Truth value testing: \<^verbatim>\<open>None\<close>, zero, the empty string and the empty tuple are false.\<close>

fun truthy :: "pyval \<Rightarrow> bool" where
  "truthy PNone = False"
| "truthy (PInt i) = (i \<noteq> 0)"
| "truthy (PFloat r) = (r \<noteq> 0)"
| "truthy (PStr s) = (s \<noteq> [])"
| "truthy (PTuple xs) = (xs \<noteq> [])"

subsection \<open>Lists\<close>

text \<open>Indexing with a Python integer: a negative index counts from the end; \<^term>\<open>None\<close> is IndexError.\<close>

definition py_get :: "'a list \<Rightarrow> int \<Rightarrow> 'a option" where
  "py_get xs i =
     (if 0 \<le> i \<and> i < int (length xs) then Some (xs ! nat i)
      else if i < 0 \<and> - int (length xs) \<le> i then Some (xs ! nat (int (length xs) + i))
      else None)"

text \<open>A slice bound, clamped to the list as Python clamps it.\<close>

definition slice_bound :: "nat \<Rightarrow> int \<Rightarrow> nat" where
  "slice_bound n i = (if i < 0 then nat (max (int n + i) 0) else min (nat i) n)"

text \<open>\<^verbatim>\<open>xs[i:j]\<close>, \<^verbatim>\<open>xs[i:]\<close> and \<^verbatim>\<open>xs[:j]\<close>.\<close>

definition py_slice :: "'a list \<Rightarrow> int \<Rightarrow> int \<Rightarrow> 'a list" where
  "py_slice xs i j =
     (let lo = slice_bound (length xs) i; hi = slice_bound (length xs) j
      in take (hi - lo) (drop lo xs))"

definition py_slice_from :: "'a list \<Rightarrow> int \<Rightarrow> 'a list" where
  "py_slice_from xs i = drop (slice_bound (length xs) i) xs"

definition py_slice_to :: "'a list \<Rightarrow> int \<Rightarrow> 'a list" where
  "py_slice_to xs j = take (slice_bound (length xs) j) xs"

text \<open>\<^verbatim>\<open>x in xs\<close> for a list of values.\<close>

definition py_in :: "pyval \<Rightarrow> pyval list \<Rightarrow> bool" where
  "py_in x xs = list_ex (py_eq x) xs"

text \<open>The position of the first element \<^verbatim>\<open>==\<close> to \<^verbatim>\<open>x\<close>, counted from \<^verbatim>\<open>i\<close>.\<close>

fun first_index :: "pyval \<Rightarrow> pyval list \<Rightarrow> nat \<Rightarrow> nat option" where
  "first_index x [] i = None"
| "first_index x (y # ys) i = (if py_eq y x then Some i else first_index x ys (Suc i))"

text \<open>
  \<^verbatim>\<open>xs.index(x)\<close>, \<^verbatim>\<open>xs.index(x, start)\<close> and \<^verbatim>\<open>xs.index(x, start, stop)\<close>;
  \<^term>\<open>None\<close> is ValueError. The bounds are clamped as slice bounds are.
\<close>

definition py_index :: "pyval list \<Rightarrow> pyval \<Rightarrow> nat option" where
  "py_index xs x = first_index x xs 0"

definition py_index_from :: "pyval list \<Rightarrow> pyval \<Rightarrow> int \<Rightarrow> nat option" where
  "py_index_from xs x start =
     (let lo = slice_bound (length xs) start in first_index x (drop lo xs) lo)"

definition py_index_between :: "pyval list \<Rightarrow> pyval \<Rightarrow> int \<Rightarrow> int \<Rightarrow> nat option" where
  "py_index_between xs x start stop =
     (let lo = slice_bound (length xs) start; hi = slice_bound (length xs) stop
      in first_index x (take (hi - lo) (drop lo xs)) lo)"

subsection \<open>Dictionaries\<close>

text \<open>
  A \<^verbatim>\<open>dict\<close> keeps its keys in insertion order, and the program relies on that order
  (\<^verbatim>\<open>list(self.schema)\<close>, \<^verbatim>\<open>self.schema.values()\<close>), so a dictionary is an
  association list. Keys are looked up with \<^verbatim>\<open>==\<close>. Storing under a key that is
  present replaces the value and keeps the key and its place.
\<close>

type_synonym 'v dict = "(pyval \<times> 'v) list"

fun dict_get :: "'v dict \<Rightarrow> pyval \<Rightarrow> 'v option" where
  "dict_get [] k = None"
| "dict_get ((k', v) # d) k = (if py_eq k' k then Some v else dict_get d k)"

definition dict_has :: "'v dict \<Rightarrow> pyval \<Rightarrow> bool" where
  "dict_has d k = (dict_get d k \<noteq> None)"

fun dict_set :: "'v dict \<Rightarrow> pyval \<Rightarrow> 'v \<Rightarrow> 'v dict" where
  "dict_set [] k v = [(k, v)]"
| "dict_set ((k', v') # d) k v =
     (if py_eq k' k then (k', v) # d else (k', v') # dict_set d k v)"

fun dict_del :: "'v dict \<Rightarrow> pyval \<Rightarrow> 'v dict" where
  "dict_del [] k = []"
| "dict_del ((k', v') # d) k = (if py_eq k' k then d else (k', v') # dict_del d k)"

definition dict_keys :: "'v dict \<Rightarrow> pyval list" where
  "dict_keys d = map fst d"

definition dict_values :: "'v dict \<Rightarrow> 'v list" where
  "dict_values d = map snd d"

subsection \<open>Strings\<close>

definition whitespace :: string where
  "whitespace = [CHR '' '', CHR 0x09, CHR 0x0A, CHR 0x0D, CHR 0x0B, CHR 0x0C]"

definition ascii_lowercase :: string where
  "ascii_lowercase = ''abcdefghijklmnopqrstuvwxyz''"

definition ascii_uppercase :: string where
  "ascii_uppercase = ''ABCDEFGHIJKLMNOPQRSTUVWXYZ''"

definition ascii_letters :: string where
  "ascii_letters = ascii_lowercase @ ascii_uppercase"

definition digits :: string where
  "digits = ''0123456789''"

text \<open>
  \<^verbatim>\<open>str.isnumeric\<close> on one character. Below code point 256 the numeric characters are
  the ten digits, the superscripts 2, 3 and 1, and the fractions one quarter, one half
  and three quarters.
\<close>

definition isnumeric :: "char \<Rightarrow> bool" where
  "isnumeric c \<longleftrightarrow> c \<in> set digits \<or> c \<in> {CHR 0xB2, CHR 0xB3, CHR 0xB9, CHR 0xBC, CHR 0xBD, CHR 0xBE}"

fun startswith :: "string \<Rightarrow> string \<Rightarrow> bool" where
  "startswith s [] = True"
| "startswith [] (c # sub) = False"
| "startswith (d # s) (c # sub) = (d = c \<and> startswith s sub)"

text \<open>The first position of \<^verbatim>\<open>sub\<close> in \<^verbatim>\<open>s\<close>, counted from \<^verbatim>\<open>i\<close>; -1 when there is none.\<close>

fun find_at :: "string \<Rightarrow> string \<Rightarrow> nat \<Rightarrow> int" where
  "find_at [] sub i = (if sub = [] then int i else -1)"
| "find_at (c # s) sub i = (if startswith (c # s) sub then int i else find_at s sub (Suc i))"

text \<open>\<^verbatim>\<open>s.find(sub)\<close> and \<^verbatim>\<open>s.find(sub, start)\<close>.\<close>

definition py_find :: "string \<Rightarrow> string \<Rightarrow> int" where
  "py_find s sub = find_at s sub 0"

definition py_find_from :: "string \<Rightarrow> string \<Rightarrow> int \<Rightarrow> int" where
  "py_find_from s sub start =
     (if start > int (length s) then -1
      else let lo = slice_bound (length s) start in find_at (drop lo s) sub lo)"

text \<open>\<^verbatim>\<open>sub in s\<close> for strings.\<close>

definition str_contains :: "string \<Rightarrow> string \<Rightarrow> bool" where
  "str_contains s sub \<longleftrightarrow> py_find s sub \<noteq> -1"

text \<open>
  \<^verbatim>\<open>x in s\<close> where \<^verbatim>\<open>s\<close> may be any value: a substring test when \<^verbatim>\<open>s\<close> is a string
  (TypeError unless \<^verbatim>\<open>x\<close> is one too), membership when it is a tuple, TypeError otherwise.
\<close>

fun py_in_str :: "pyval \<Rightarrow> pyval \<Rightarrow> error + bool" where
  "py_in_str (PStr sub) (PStr s) = Inr (str_contains s sub)"
| "py_in_str x (PTuple xs) = Inr (py_in x xs)"
| "py_in_str _ _ = Inl TypeError"

text \<open>\<^verbatim>\<open>x[i:]\<close> for a value: strings and tuples can be sliced.\<close>

fun py_slice_from_val :: "pyval \<Rightarrow> int \<Rightarrow> error + pyval" where
  "py_slice_from_val (PStr s) i = Inr (PStr (py_slice_from s i))"
| "py_slice_from_val (PTuple xs) i = Inr (PTuple (py_slice_from xs i))"
| "py_slice_from_val _ i = Inl TypeError"

text \<open>\<^verbatim>\<open>a + "." + b\<close>: both must be strings.\<close>

fun py_qualify :: "pyval \<Rightarrow> pyval \<Rightarrow> error + pyval" where
  "py_qualify (PStr a) (PStr b) = Inr (PStr (a @ ''.'' @ b))"
| "py_qualify _ _ = Inl TypeError"

text \<open>\<^verbatim>\<open>text.replace("''", "'")\<close>: every pair of quotes, left to right, becomes one.\<close>

fun replace_quotes :: "string \<Rightarrow> string" where
  "replace_quotes (c # d # s) =
     (if c = CHR 0x27 \<and> d = CHR 0x27 then CHR 0x27 # replace_quotes s
      else c # replace_quotes (d # s))"
| "replace_quotes s = s"

subsection \<open>Numbers from text\<close>

definition digit_value :: "char \<Rightarrow> nat" where
  "digit_value c = of_char c - of_char CHR ''0''"

definition digits_value :: "string \<Rightarrow> nat" where
  "digits_value s = foldl (\<lambda>n c. 10 * n + digit_value c) 0 s"

definition all_digits :: "string \<Rightarrow> bool" where
  "all_digits s \<longleftrightarrow> s \<noteq> [] \<and> list_all (\<lambda>c. c \<in> set digits) s"

text \<open>
  \<^verbatim>\<open>int(s)\<close> for a string made of digits, \<^verbatim>\<open>-\<close>, \<^verbatim>\<open>.\<close> and \<^verbatim>\<open>E\<close> only, which
  is all the tokenizer passes: an optional sign before one or more digits, ValueError
  (\<^term>\<open>None\<close>) otherwise. The interpreter's limit on the number of digits is not modelled.
\<close>

definition py_int :: "string \<Rightarrow> int option" where
  "py_int s =
     (case s of
        [] \<Rightarrow> None
      | c # r \<Rightarrow>
          if c = CHR ''-'' then (if all_digits r then Some (- int (digits_value r)) else None)
          else if all_digits s then Some (int (digits_value s)) else None)"

text \<open>
  \<^verbatim>\<open>float(s)\<close> for such a string: an optional sign, digits with an optional point, or
  a point followed by digits, then an optional exponent \<^verbatim>\<open>E\<close> with an optional sign
  and one or more digits.
\<close>

definition py_float_exponent :: "string \<Rightarrow> int option" where
  "py_float_exponent s =
     (case s of
        [] \<Rightarrow> Some 0
      | c # r \<Rightarrow> if c = CHR ''E'' then py_int r else None)"

definition py_float_unsigned :: "string \<Rightarrow> real option" where
  "py_float_unsigned s =
     (let ip = takeWhile (\<lambda>c. c \<in> set digits) s;
          s1 = dropWhile (\<lambda>c. c \<in> set digits) s;
          has_point = (s1 \<noteq> [] \<and> hd s1 = CHR ''.'');
          s2 = (if has_point then tl s1 else s1);
          fp = (if has_point then takeWhile (\<lambda>c. c \<in> set digits) s2 else []);
          s3 = (if has_point then dropWhile (\<lambda>c. c \<in> set digits) s2 else s2)
      in if ip = [] \<and> fp = [] then None
         else case py_float_exponent s3 of
                None \<Rightarrow> None
              | Some e \<Rightarrow>
                  let m = real (digits_value ip) + real (digits_value fp) / 10 ^ length fp
                  in Some (if e < 0 then m / 10 ^ nat (- e) else m * 10 ^ nat e))"

definition py_float :: "string \<Rightarrow> real option" where
  "py_float s =
     (case s of
        [] \<Rightarrow> None
      | c # r \<Rightarrow>
          if c = CHR ''-'' then map_option uminus (py_float_unsigned r)
          else py_float_unsigned s)"

section \<open>The tokenizer\<close>

text \<open>
  The helpers of \<^verbatim>\<open>tokenize\<close> append to the token list they are given and return the
  rest of the query; here they return both.
\<close>

definition collect_characters :: "string \<Rightarrow> string \<Rightarrow> string" where
  "collect_characters query allowed_characters =
     takeWhile (\<lambda>letter. letter \<in> set allowed_characters) query"

definition remove_leading_whitespace :: "string \<Rightarrow> pyval list \<Rightarrow> string" where
  "remove_leading_whitespace query tokens =
     (let ws = collect_characters query whitespace
      in py_slice_from query (int (length ws)))"

definition remove_word :: "string \<Rightarrow> pyval list \<Rightarrow> string \<times> pyval list" where
  "remove_word query tokens =
     (let word = collect_characters query (ascii_letters @ ''_.*'' @ digits)
      in (py_slice_from query (int (length word)),
          tokens @ [if word = ''NULL'' then PNone else PStr word]))"

text \<open>
  The loop of \<^verbatim>\<open>remove_text\<close> that steps over doubled quotes. It runs while the next
  doubled quote starts at the closing quote found so far; each turn searches two
  characters further on, so it ends.
\<close>

lemma find_at_range: "find_at s sub i = j \<Longrightarrow> j = -1 \<or> int i \<le> j \<and> j \<le> int i + int (length s)"
  by (induction s sub i arbitrary: j rule: find_at.induct) (auto split: if_splits)

lemma py_find_from_range:
  "0 \<le> start \<Longrightarrow> py_find_from s sub start = j \<Longrightarrow> j = -1 \<or> start \<le> j \<and> j \<le> int (length s)"
  using find_at_range[of "drop (slice_bound (length s) start) s" sub "slice_bound (length s) start"]
  by (auto simp: py_find_from_def slice_bound_def Let_def split: if_splits)

function escape_loop :: "string \<Rightarrow> int \<Rightarrow> int \<Rightarrow> int" where
  "escape_loop query end_quote_index escape_index =
     (if escape_index = end_quote_index \<and> escape_index \<noteq> -1 \<and> 0 \<le> escape_index
      then escape_loop query (py_find_from query [CHR 0x27] (escape_index + 2))
             (py_find_from query [CHR 0x27, CHR 0x27] (escape_index + 2))
      else end_quote_index)"
  by pat_completeness auto
termination escape_loop
proof (relation "measure (\<lambda>(query, e, x). if x < 0 then 0 else Suc (Suc (Suc (length query)) - nat x))")
  show "wf (measure (\<lambda>(query, e, x). if x < 0 then 0 else Suc (Suc (Suc (length query)) - nat x)))"
    by simp
next
  fix query :: string and end_quote_index escape_index :: int
  assume a: "escape_index = end_quote_index \<and> escape_index \<noteq> - 1 \<and> 0 \<le> escape_index"
  define j where "j = py_find_from query [CHR 0x27, CHR 0x27] (escape_index + 2)"
  have "j = -1 \<or> escape_index + 2 \<le> j \<and> j \<le> int (length query)"
    using py_find_from_range[of "escape_index + 2" query "[CHR 0x27, CHR 0x27]" j] a
    by (simp add: j_def)
  then show "((query, py_find_from query [CHR 0x27] (escape_index + 2),
         py_find_from query [CHR 0x27, CHR 0x27] (escape_index + 2)),
        query, end_quote_index, escape_index)
       \<in> measure (\<lambda>(query, e, x). if x < 0 then 0 else Suc (Suc (Suc (length query)) - nat x))"
    using a unfolding j_def[symmetric] by auto
qed

declare escape_loop.simps [simp del]

text \<open>
  \<^verbatim>\<open>str.find\<close> returns -1 or a position, so the test \<^term>\<open>0 \<le> escape_index\<close> in
  \<^const>\<open>escape_loop\<close> repeats \<^verbatim>\<open>escape_index != -1\<close>; it is there for the termination
  proof, which has to cover every integer.

  With no closing quote \<^verbatim>\<open>end_quote_index\<close> is -1: the text is then the query without
  its last character, and the query goes on right after the opening quote.
\<close>

definition remove_text :: "string \<Rightarrow> pyval list \<Rightarrow> error + string \<times> pyval list" where
  "remove_text query0 tokens =
     (case query0 of
        [] \<Rightarrow> Inl IndexError
      | c # query \<Rightarrow>
          if c \<noteq> CHR 0x27 then Inl AssertionError
          else
            let end_quote_index0 = py_find query [CHR 0x27];
                end_quote_index =
                  (if str_contains query [CHR 0x27, CHR 0x27]
                   then escape_loop query end_quote_index0 (py_find query [CHR 0x27, CHR 0x27])
                   else end_quote_index0);
                text = replace_quotes (py_slice_to query end_quote_index)
            in Inr (py_slice_from query (end_quote_index + 1), tokens @ [PStr text]))"

definition remove_num :: "string \<Rightarrow> pyval list \<Rightarrow> error + string \<times> pyval list" where
  "remove_num query tokens =
     (let number = collect_characters query (digits @ ''-.E'')
      in if str_contains number ''.''
         then (case py_float number of
                 None \<Rightarrow> Inl ValueError
               | Some r \<Rightarrow> Inr (py_slice_from query (int (length number)), tokens @ [PFloat r]))
         else (case py_int number of
                 None \<Rightarrow> Inl ValueError
               | Some i \<Rightarrow> Inr (py_slice_from query (int (length number)), tokens @ [PInt i])))"

text \<open>\<^verbatim>\<open>len(x)\<close>: TypeError (\<^term>\<open>None\<close>) for \<^verbatim>\<open>None\<close> and for numbers.\<close>

fun py_len :: "pyval \<Rightarrow> nat option" where
  "py_len (PStr s) = Some (length s)"
| "py_len (PTuple xs) = Some (length xs)"
| "py_len _ = None"

text \<open>\<^verbatim>\<open>tokens[-1] += c\<close> for a string token.\<close>

fun extend_last :: "pyval list \<Rightarrow> char \<Rightarrow> pyval list" where
  "extend_last tokens c =
     (case last tokens of PStr s \<Rightarrow> butlast tokens @ [PStr (s @ [c])] | _ \<Rightarrow> tokens)"

lemma slice_from_shorter: "0 < i \<Longrightarrow> query \<noteq> [] \<Longrightarrow> length (py_slice_from query i) < length query"
  by (auto simp: py_slice_from_def slice_bound_def)

lemma collect_nonempty:
  "c \<in> set allowed \<Longrightarrow> collect_characters (c # rest) allowed \<noteq> []"
  by (simp add: collect_characters_def)

lemma remove_leading_whitespace_shorter:
  "c \<in> set whitespace \<Longrightarrow>
   length (remove_leading_whitespace (c # rest) tokens) < length (c # rest)"
  unfolding remove_leading_whitespace_def Let_def
  by (rule slice_from_shorter) (simp_all add: collect_characters_def)

lemma remove_word_shorter:
  "c \<in> set (ascii_letters @ ''_'') \<Longrightarrow> remove_word (c # rest) tokens = (q, t) \<Longrightarrow>
   length q < length (c # rest)"
proof -
  assume c: "c \<in> set (ascii_letters @ ''_'')" and r: "remove_word (c # rest) tokens = (q, t)"
  from c have "c \<in> set (ascii_letters @ ''_.*'' @ digits)" by auto
  then have "collect_characters (c # rest) (ascii_letters @ ''_.*'' @ digits) \<noteq> []"
    by (rule collect_nonempty)
  then have "length (py_slice_from (c # rest)
      (int (length (collect_characters (c # rest) (ascii_letters @ ''_.*'' @ digits))))) < length (c # rest)"
    by (intro slice_from_shorter) simp_all
  with r show ?thesis by (auto simp: remove_word_def Let_def)
qed

lemma slice_from_le: "length (py_slice_from query i) \<le> length query"
  by (simp add: py_slice_from_def)

lemma remove_text_shorter:
  assumes "remove_text query tokens = Inr (q, t)"
  shows "length q < length query"
proof (cases query)
  case Nil
  with assms show ?thesis by (simp add: remove_text_def)
next
  case (Cons c query')
  with assms obtain i where "q = py_slice_from query' i"
    unfolding remove_text_def Let_def by (auto split: if_splits)
  then have "length q \<le> length query'" by (simp add: slice_from_le)
  with Cons show ?thesis by simp
qed

lemma remove_num_shorter:
  assumes "remove_num query tokens = Inr (q, t)"
  shows "length q < length query"
proof -
  define number where "number = collect_characters query (digits @ ''-.E'')"
  have ne: "number \<noteq> []"
    using assms unfolding remove_num_def number_def[symmetric] Let_def
    by (auto simp: py_float_def py_int_def split: if_splits option.splits)
  then have q0: "query \<noteq> []" by (auto simp: number_def collect_characters_def)
  have "q = py_slice_from query (int (length number))"
    using assms unfolding remove_num_def number_def[symmetric] Let_def
    by (auto split: if_splits option.splits)
  with ne q0 show ?thesis by (simp add: slice_from_shorter)
qed

function tokenize_loop :: "string \<Rightarrow> pyval list \<Rightarrow> error + pyval list" where
  "tokenize_loop [] tokens = Inr tokens"
| "tokenize_loop (c # rest) tokens =
     (if c \<in> set whitespace
      then tokenize_loop (remove_leading_whitespace (c # rest) tokens) tokens
      else if c \<in> set (ascii_letters @ ''_'')
      then (case remove_word (c # rest) tokens of (query, tokens') \<Rightarrow> tokenize_loop query tokens')
      else if c \<in> set ''(),;*''
      then tokenize_loop rest (tokens @ [PStr [c]])
      else if c = CHR 0x27
      then (case remove_text (c # rest) tokens of
              Inl e \<Rightarrow> Inl e
            | Inr (query, tokens') \<Rightarrow> tokenize_loop query tokens')
      else if isnumeric c \<or> c \<in> set ''-''
      then (case remove_num (c # rest) tokens of
              Inl e \<Rightarrow> Inl e
            | Inr (query, tokens') \<Rightarrow> tokenize_loop query tokens')
      else if c \<in> set ''<>=!''
      then (case py_get tokens (-1) of
              None \<Rightarrow> Inl IndexError
            | Some last_token \<Rightarrow>
                (case py_len last_token of
                   None \<Rightarrow> Inl TypeError
                 | Some n \<Rightarrow>
                     if n < 2
                     then (case py_in_str last_token (PStr ''!>'') of
                             Inl e \<Rightarrow> Inl e
                           | Inr b \<Rightarrow>
                               if b \<and> c = CHR ''=''
                               then tokenize_loop rest (extend_last tokens c)
                               else if py_eq last_token (PStr ''='') \<and> c = CHR ''<''
                               then tokenize_loop rest (extend_last tokens c)
                               else tokenize_loop rest (tokens @ [PStr [c]]))
                     else tokenize_loop rest (tokens @ [PStr [c]])))
      else Inl QueryNotShorter)"
  by pat_completeness auto
termination tokenize_loop
proof (relation "measure (\<lambda>(query, tokens). length query)")
  fix c rest tokens x y
  assume "c \<in> set (ascii_letters @ ''_'')" and "(x, y) = remove_word (c # rest) tokens"
  then have "length x < length (c # rest)"
    using remove_word_shorter[of c rest tokens x y] by simp
  then show "((x, y), c # rest, tokens) \<in> measure (\<lambda>(query, tokens). length query)"
    by simp
next
  fix c rest tokens x2 x y
  assume "remove_text (c # rest) tokens = Inr x2" and "(x, y) = x2"
  then have "length x < length (c # rest)"
    using remove_text_shorter[of "c # rest" tokens x y] by simp
  then show "((x, y), c # rest, tokens) \<in> measure (\<lambda>(query, tokens). length query)"
    by simp
next
  fix c rest tokens x2 x y
  assume "remove_num (c # rest) tokens = Inr x2" and "(x, y) = x2"
  then have "length x < length (c # rest)"
    using remove_num_shorter[of "c # rest" tokens x y] by simp
  then show "((x, y), c # rest, tokens) \<in> measure (\<lambda>(query, tokens). length query)"
    by simp
qed (simp_all add: remove_leading_whitespace_shorter[simplified])

definition tokenize :: "string \<Rightarrow> error + pyval list" where
  "tokenize query = tokenize_loop query []"

section \<open>Rows, tables, views and databases\<close>

text \<open>
  What a call does: it returns a value, raises, or never comes back. The last case is
  real: two loops below can run forever.
\<close>

datatype 'a outcome = Returns 'a | Raises error | Diverges

subsection \<open>Row\<close>

record Row =
  data :: "pyval list"
  rw_size :: nat
  primary_key :: pyval

definition Row_init :: "pyval list \<Rightarrow> Row" where
  "Row_init row_data = \<lparr>data = row_data, rw_size = length row_data, primary_key = PNone\<rparr>"

text \<open>\<^verbatim>\<open>Row.__eq__\<close>.\<close>

definition Row_eq :: "Row \<Rightarrow> Row \<Rightarrow> bool" where
  "Row_eq self other =
     (if rw_size self \<noteq> rw_size other \<or> \<not> py_eq_list (data self) (data other) then False
      else True)"

definition update_row :: "Row \<Rightarrow> nat \<Rightarrow> pyval \<Rightarrow> error + Row" where
  "update_row self column_index value =
     (if column_index < length (data self)
      then Inr (self\<lparr>data := (data self)[column_index := value]\<rparr>)
      else Inl IndexError)"

text \<open>
  \<^verbatim>\<open>Row.check_row\<close>. The operator is a token, so any value; a comparison that Python
  cannot make raises TypeError.
\<close>

definition check_row :: "Row \<Rightarrow> pyval \<Rightarrow> nat \<Rightarrow> pyval \<Rightarrow> pyval \<Rightarrow> error + bool" where
  "check_row self column_name column_index op value =
     (case py_get (data self) (int column_index) of
        None \<Rightarrow> Inl IndexError
      | Some column_value \<Rightarrow>
          if value = PNone \<and> op = PStr ''IS'' then Inr (if \<not> truthy column_value then True else False)
          else if value = PNone \<and> op = PStr ''IS NOT'' then Inr (if truthy column_value then True else False)
          else if value \<noteq> PNone \<and> column_value = PNone then Inr False
          else if op = PStr ''='' then Inr (py_eq column_value value)
          else if op = PStr ''!='' then Inr (\<not> py_eq column_value value)
          else if op = PStr ''>'' then py_gt column_value value
          else if op = PStr ''>='' then py_ge column_value value
          else if op = PStr ''<'' then py_lt column_value value
          else if op = PStr ''<='' then py_le column_value value
          else Inr False)"

subsection \<open>Table\<close>

text \<open>
  \<^verbatim>\<open>View\<close> is a subclass of \<^verbatim>\<open>Table\<close> with three more attributes; a table is a
  view exactly when it carries them (\<^verbatim>\<open>isinstance(table, View)\<close>).
\<close>

record ViewInfo =
  vw_statement :: string
  vw_columns :: "pyval list"
  vw_table_name :: pyval

record Table =
  tb_name :: pyval
  schema :: "pyval dict"
  column_names :: "pyval list"
  default_values :: "pyval dict"
  column_size :: nat
  rows :: "Row list"
  tb_size :: int
  view :: "ViewInfo option"

text \<open>
  The first loop of \<^verbatim>\<open>Table.__init__\<close> reads a column name and a type and steps over
  the token that follows them.
\<close>

function schema_loop :: "pyval list \<Rightarrow> nat \<Rightarrow> pyval dict \<Rightarrow> error + pyval dict" where
  "schema_loop values value_itr sch =
     (if length values \<noteq> 0 \<and> int value_itr \<noteq> int (length values) - 1
      then if value_itr < length values
           then (case py_get values (int value_itr + 1) of
                   None \<Rightarrow> Inl IndexError
                 | Some column_type \<Rightarrow>
                     if value_itr + 2 = length values
                     then Inr (dict_set sch (values ! value_itr) column_type)
                     else schema_loop values (value_itr + 3)
                            (dict_set sch (values ! value_itr) column_type))
           else Inl IndexError
      else Inr sch)"
  by pat_completeness auto
termination schema_loop
  by (relation "measure (\<lambda>(values, value_itr, sch). length values - value_itr)") auto

declare schema_loop.simps [simp del]

text \<open>
  The second loop looks for \<^verbatim>\<open>DEFAULT\<close> after \<^verbatim>\<open>value_itr\<close> but always takes the
  position of the first \<^verbatim>\<open>DEFAULT\<close> in the whole list, so with a second \<^verbatim>\<open>DEFAULT\<close>
  it never ends: \<^term>\<open>None\<close>.
\<close>

partial_function (option) default_loop ::
  "pyval list \<Rightarrow> int \<Rightarrow> pyval dict \<Rightarrow> (error + pyval dict) option" where
  "default_loop values value_itr defaults =
     (if py_in (PStr ''DEFAULT'') (py_slice_from values value_itr)
      then (case py_index values (PStr ''DEFAULT'') of
              None \<Rightarrow> Some (Inl ValueError)
            | Some default_index \<Rightarrow>
                (case py_get values (int default_index - 2) of
                   None \<Rightarrow> Some (Inl IndexError)
                 | Some column_name \<Rightarrow>
                     (case py_get values (int default_index + 1) of
                        None \<Rightarrow> Some (Inl IndexError)
                      | Some default_value \<Rightarrow>
                          default_loop values (int default_index + 1)
                            (dict_set defaults column_name default_value))))
      else Some (Inr defaults))"

declare default_loop.simps [code]

definition Table_init :: "pyval \<Rightarrow> pyval list \<Rightarrow> Table outcome" where
  "Table_init table_name values =
     (case schema_loop values 0 [] of
        Inl e \<Rightarrow> Raises e
      | Inr sch \<Rightarrow>
          (case default_loop values 0 [] of
             None \<Rightarrow> Diverges
           | Some (Inl e) \<Rightarrow> Raises e
           | Some (Inr defaults) \<Rightarrow>
               Returns \<lparr>tb_name = table_name, schema = sch, column_names = dict_keys sch,
                 default_values = defaults, column_size = length (dict_keys sch),
                 rows = [], tb_size = 0, view = None\<rparr>))"

definition add_column :: "Table \<Rightarrow> pyval \<Rightarrow> pyval \<Rightarrow> Table" where
  "add_column self column_name column_type =
     self\<lparr>schema := dict_set (schema self) column_name column_type,
          column_names := column_names self @ [column_name],
          column_size := column_size self + 1\<rparr>"

text \<open>\<^term>\<open>None\<close> is the ValueError of \<^verbatim>\<open>list.index\<close>.\<close>

definition get_column_index :: "Table \<Rightarrow> pyval \<Rightarrow> nat option" where
  "get_column_index self column_name = py_index (column_names self) column_name"

text \<open>
  \<^verbatim>\<open>insert_row\<close> takes a list of values, or any string for a row of defaults
  (\<^verbatim>\<open>isinstance(values, str)\<close>).
\<close>

datatype insert_values = StrValues string | ListValues "pyval list"

text \<open>\<^verbatim>\<open>while len(insertion_columns) - len(values) > 0: values.append(None)\<close>\<close>

function pad_to_columns :: "pyval list \<Rightarrow> pyval list \<Rightarrow> pyval list" where
  "pad_to_columns insertion_columns values =
     (if int (length insertion_columns) - int (length values) > 0
      then pad_to_columns insertion_columns (values @ [PNone])
      else values)"
  by pat_completeness auto
termination pad_to_columns
  by (relation "measure (\<lambda>(insertion_columns, values). length insertion_columns - length values)") auto

declare pad_to_columns.simps [simp del]

text \<open>
  \<^verbatim>\<open>while len(values) - self.column_size > 0: values.append(None)\<close>: each turn makes
  the difference larger, so the loop ends only if it never starts.
\<close>

partial_function (option) pad_to_size :: "pyval list \<Rightarrow> nat \<Rightarrow> pyval list option" where
  "pad_to_size values n =
     (if int (length values) - int n > 0
      then pad_to_size (values @ [PNone]) n
      else Some values)"

declare pad_to_size.simps [code]

text \<open>The dictionary \<^verbatim>\<open>cols_to_values\<close> built from \<^verbatim>\<open>zip(insertion_columns, values)\<close>.\<close>

fun zip_dict :: "(pyval \<times> pyval) list \<Rightarrow> pyval dict \<Rightarrow> pyval dict" where
  "zip_dict [] d = d"
| "zip_dict ((col, vals) # ps) d = zip_dict ps (dict_set d col vals)"

text \<open>The loop over \<^verbatim>\<open>self.column_names\<close> that puts the values in column order.\<close>

fun reorganize :: "pyval list \<Rightarrow> pyval list \<Rightarrow> pyval dict \<Rightarrow> pyval dict \<Rightarrow> error + pyval list" where
  "reorganize [] insertion_columns cols_to_values defaults = Inr []"
| "reorganize (column_name # names) insertion_columns cols_to_values defaults =
     (if py_in column_name insertion_columns
      then (case dict_get cols_to_values column_name of
              None \<Rightarrow> Inl KeyError
            | Some v \<Rightarrow> map_sum id (\<lambda>vs. v # vs) (reorganize names insertion_columns cols_to_values defaults))
      else (case dict_get defaults column_name of
              Some v \<Rightarrow> map_sum id (\<lambda>vs. v # vs) (reorganize names insertion_columns cols_to_values defaults)
            | None \<Rightarrow> map_sum id (\<lambda>vs. PNone # vs) (reorganize names insertion_columns cols_to_values defaults)))"

fun is_str :: "pyval \<Rightarrow> bool" where
  "is_str (PStr s) = True"
| "is_str _ = False"

fun is_float :: "pyval \<Rightarrow> bool" where
  "is_float (PFloat r) = True"
| "is_float _ = False"

fun is_int :: "pyval \<Rightarrow> bool" where
  "is_int (PInt i) = True"
| "is_int _ = False"

text \<open>The type check over \<^verbatim>\<open>zip(values, self.schema.values())\<close>: false at the first mismatch.\<close>

fun type_check :: "(pyval \<times> pyval) list \<Rightarrow> bool" where
  "type_check [] = True"
| "type_check ((value, value_type) # ps) =
     (if value_type = PNone \<and> value = PNone \<or> value = PNone then type_check ps
      else if value_type = PStr ''TEXT'' \<and> is_str value then type_check ps
      else if value_type = PStr ''REAL'' \<and> is_float value then type_check ps
      else if value_type = PStr ''INTEGER'' \<and> is_int value then type_check ps
      else if value_type = PStr ''BLOB'' then type_check ps
      else False)"

definition append_row :: "Table \<Rightarrow> pyval list \<Rightarrow> Table" where
  "append_row self values =
     self\<lparr>rows := rows self @ [Row_init values], tb_size := tb_size self + 1\<rparr>"

definition insert_row :: "Table \<Rightarrow> insert_values \<Rightarrow> pyval list option \<Rightarrow> Table outcome" where
  "insert_row self vals insertion_columns =
     (case vals of
        StrValues s \<Rightarrow>
          Returns (append_row self
            (map (\<lambda>name. case dict_get (default_values self) name of
                            Some v \<Rightarrow> v | None \<Rightarrow> PNone) (column_names self)))
      | ListValues values \<Rightarrow>
          if length values > column_size self then Returns self
          else
            (case (case insertion_columns of
                     Some cols \<Rightarrow>
                       (case reorganize (column_names self) cols
                               (zip_dict (zip cols (pad_to_columns cols values)) [])
                               (default_values self) of
                          Inl e \<Rightarrow> Raises e
                        | Inr values' \<Rightarrow> Returns values')
                   | None \<Rightarrow>
                       if length values < column_size self
                       then (case pad_to_size values (column_size self) of
                               None \<Rightarrow> Diverges
                             | Some values' \<Rightarrow> Returns values')
                       else Returns values) of
               Raises e \<Rightarrow> Raises e
             | Diverges \<Rightarrow> Diverges
             | Returns values' \<Rightarrow>
                 if type_check (zip values' (dict_values (schema self)))
                 then Returns (append_row self values')
                 else Returns self))"

text \<open>\<^verbatim>\<open>remove_row\<close>: the first record equal to the row goes.\<close>

fun remove_first :: "Row \<Rightarrow> Row list \<Rightarrow> Row list option" where
  "remove_first row [] = None"
| "remove_first row (record # rs) =
     (if Row_eq row record then Some rs else map_option (\<lambda>rs'. record # rs') (remove_first row rs))"

definition remove_row :: "Table \<Rightarrow> Row \<Rightarrow> Table" where
  "remove_row self row =
     (if tb_size self = 0 then self
      else case remove_first row (rows self) of
             Some rs \<Rightarrow> self\<lparr>rows := rs, tb_size := tb_size self - 1\<rparr>
           | None \<Rightarrow> self)"

subsection \<open>View\<close>

text \<open>
  The loop of \<^verbatim>\<open>View.__init__\<close> that strips the qualification: the part of a column
  name after its first point. \<^verbatim>\<open>"." in table_cols\<close> raises TypeError for a column name
  that is not a string.
\<close>

fun unqualify :: "pyval dict \<Rightarrow> pyval dict \<Rightarrow> error + pyval dict" where
  "unqualify [] unqualified_schema = Inr unqualified_schema"
| "unqualify ((table_cols, col_type) # table_schema) unqualified_schema =
     (case table_cols of
        PStr s \<Rightarrow>
          if str_contains s ''.''
          then unqualify table_schema
                 (dict_set unqualified_schema (PStr (py_slice_from s (py_find s ''.'' + 1))) col_type)
          else unqualify table_schema (dict_set unqualified_schema table_cols col_type)
      | _ \<Rightarrow> Inl TypeError)"

text \<open>The loop over \<^verbatim>\<open>view_columns\<close> that keeps the columns the schema has.\<close>

fun restrict_schema :: "pyval list \<Rightarrow> pyval dict \<Rightarrow> pyval dict \<Rightarrow> pyval dict" where
  "restrict_schema [] unqualified_schema view_schema = view_schema"
| "restrict_schema (column # cols) unqualified_schema view_schema =
     (case dict_get unqualified_schema column of
        Some t \<Rightarrow> restrict_schema cols unqualified_schema (dict_set view_schema column t)
      | None \<Rightarrow> restrict_schema cols unqualified_schema view_schema)"

definition View_init :: "pyval \<Rightarrow> pyval \<Rightarrow> pyval list \<Rightarrow> pyval dict \<Rightarrow> string \<Rightarrow> Table outcome" where
  "View_init view_name table_name view_columns table_schema statement =
     (case unqualify table_schema [] of
        Inl e \<Rightarrow> Raises e
      | Inr unqualified_schema \<Rightarrow>
          let view_schema =
                (if py_in (PStr ''*'') view_columns \<and> length view_columns = 1 then unqualified_schema
                 else restrict_schema view_columns unqualified_schema [])
          in (case Table_init view_name [] of
                Raises e \<Rightarrow> Raises e
              | Diverges \<Rightarrow> Diverges
              | Returns t \<Rightarrow>
                  Returns (t\<lparr>schema := view_schema, column_names := dict_keys view_schema,
                    column_size := length (dict_keys view_schema),
                    view := Some \<lparr>vw_statement = statement, vw_columns = view_columns, vw_table_name = table_name\<rparr>\<rparr>)))"

subsection \<open>Database\<close>

text \<open>
  \<^verbatim>\<open>joined_table\<close> is \<^verbatim>\<open>None\<close> or the table of the last join; in a database read from
  a file it is the name the file gives.
\<close>

datatype joined = NoJoin | JoinTable Table | JoinName string

record Database =
  db_name :: string
  db_size :: int
  tables :: "Table dict"
  joined_table :: joined

definition Database_init :: "string \<Rightarrow> Database" where
  "Database_init database_name =
     \<lparr>db_name = database_name, db_size = 0, tables = [], joined_table = NoJoin\<rparr>"

definition add_table :: "Database \<Rightarrow> pyval \<Rightarrow> pyval list \<Rightarrow> Database outcome" where
  "add_table self table_name values =
     (case Table_init table_name values of
        Raises e \<Rightarrow> Raises e
      | Diverges \<Rightarrow> Diverges
      | Returns t \<Rightarrow>
          Returns (self\<lparr>tables := dict_set (tables self) table_name t, db_size := db_size self + 1\<rparr>))"

definition remove_table :: "Database \<Rightarrow> pyval \<Rightarrow> error + Database" where
  "remove_table self table_name =
     (if dict_has (tables self) table_name
      then Inr (self\<lparr>tables := dict_del (tables self) table_name, db_size := db_size self - 1\<rparr>)
      else Inl KeyError)"

definition add_view ::
  "Database \<Rightarrow> pyval \<Rightarrow> pyval \<Rightarrow> pyval list \<Rightarrow> pyval dict \<Rightarrow> string \<Rightarrow> Database outcome" where
  "add_view self view_name table_name view_columns table_schema statement =
     (case View_init view_name table_name view_columns table_schema statement of
        Raises e \<Rightarrow> Raises e
      | Diverges \<Rightarrow> Diverges
      | Returns v \<Rightarrow>
          Returns (self\<lparr>tables := dict_set (tables self) view_name v, db_size := db_size self + 1\<rparr>))"

section \<open>Connection.select\<close>

text \<open>
  The operator and the value of a condition \<^verbatim>\<open>[column, op, value]\<close>, as \<^verbatim>\<open>select\<close>,
  \<^verbatim>\<open>update_table\<close> and \<^verbatim>\<open>delete_from\<close> all read them: \<^verbatim>\<open>IS\<close> followed by a true
  token equal to \<^verbatim>\<open>NOT\<close> becomes the operator \<^verbatim>\<open>IS NOT\<close>, and with \<^verbatim>\<open>IS\<close> the value
  stays \<^verbatim>\<open>None\<close>.
\<close>

definition condition_op_value :: "pyval list \<Rightarrow> error + pyval \<times> pyval" where
  "condition_op_value conditions =
     (case py_get conditions 1 of
        None \<Rightarrow> Inl IndexError
      | Some op \<Rightarrow>
          (case py_get conditions 2 of
             None \<Rightarrow> Inl IndexError
           | Some c2 \<Rightarrow>
               if op = PStr ''IS''
               then (if truthy c2 \<and> c2 = PStr ''NOT'' then Inr (PStr ''IS NOT'', PNone)
                     else Inr (op, PNone))
               else Inr (op, c2)))"

text \<open>The loop of \<^verbatim>\<open>select\<close> over \<^verbatim>\<open>table.rows\<close> that keeps the rows passing the condition.\<close>

fun filter_rows ::
  "Table \<Rightarrow> pyval list option \<Rightarrow> pyval \<Rightarrow> pyval \<Rightarrow> Row list \<Rightarrow> error + pyval list list" where
  "filter_rows table conditions op value [] = Inr []"
| "filter_rows table conditions op value (row # rs) =
     (case conditions of
        None \<Rightarrow> map_sum id (\<lambda>result. data row # result) (filter_rows table conditions op value rs)
      | Some cs \<Rightarrow>
          (case py_get cs 0 of
             None \<Rightarrow> Inl IndexError
           | Some column_name \<Rightarrow>
               (case py_index (column_names table) column_name of
                  None \<Rightarrow> Inl ValueError
                | Some column_index \<Rightarrow>
                    (case check_row row column_name column_index op value of
                       Inl e \<Rightarrow> Inl e
                     | Inr True \<Rightarrow>
                         map_sum id (\<lambda>result. data row # result)
                           (filter_rows table conditions op value rs)
                     | Inr False \<Rightarrow> filter_rows table conditions op value rs))))"

subsection \<open>Sorting\<close>

text \<open>
  \<^verbatim>\<open>result.sort(key=itemgetter(...), reverse=rev)\<close>. The keys of all records are
  computed first (IndexError for a record that is too short). A list of fewer than two
  records is then left alone. Otherwise the records are sorted by comparing keys with
  \<^verbatim>\<open><\<close>, stably, and with \<^verbatim>\<open>reverse\<close> the list is reversed before and after. Python raises
  TypeError when it compares two keys it cannot order; which pairs it compares is the
  sorting algorithm's business, and the model raises TypeError as soon as some two keys
  of the list cannot be ordered.
\<close>

fun sort_keys :: "(pyval list \<Rightarrow> pyval option) \<Rightarrow> pyval list list \<Rightarrow> error + (pyval \<times> pyval list) list" where
  "sort_keys key [] = Inr []"
| "sort_keys key (record # rs) =
     (case key record of
        None \<Rightarrow> Inl IndexError
      | Some k \<Rightarrow> map_sum id (\<lambda>ks. (k, record) # ks) (sort_keys key rs))"

fun all_comparable :: "pyval list \<Rightarrow> bool" where
  "all_comparable [] = True"
| "all_comparable (k # ks) = (list_all (\<lambda>k'. py_compare k k' \<noteq> None) ks \<and> all_comparable ks)"

fun insert_sorted :: "pyval \<times> pyval list \<Rightarrow> (pyval \<times> pyval list) list \<Rightarrow> (pyval \<times> pyval list) list" where
  "insert_sorted x [] = [x]"
| "insert_sorted x (y # ys) =
     (if py_compare (fst y) (fst x) = Some LT then y # insert_sorted x ys else x # y # ys)"

fun stable_sort :: "(pyval \<times> pyval list) list \<Rightarrow> (pyval \<times> pyval list) list" where
  "stable_sort [] = []"
| "stable_sort (x # xs) = insert_sorted x (stable_sort xs)"

definition py_sort ::
  "(pyval list \<Rightarrow> pyval option) \<Rightarrow> bool \<Rightarrow> pyval list list \<Rightarrow> error + pyval list list" where
  "py_sort key reverse result =
     (case sort_keys key result of
        Inl e \<Rightarrow> Inl e
      | Inr keyed \<Rightarrow>
          if length keyed < 2 then Inr result
          else if \<not> all_comparable (map fst keyed) then Inl TypeError
          else Inr (map snd (if reverse then rev (stable_sort (rev keyed)) else stable_sort keyed)))"

text \<open>\<^verbatim>\<open>itemgetter(i)\<close> and \<^verbatim>\<open>itemgetter(i, j)\<close>; \<^term>\<open>None\<close> is IndexError.\<close>

definition itemgetter :: "nat \<Rightarrow> pyval list \<Rightarrow> pyval option" where
  "itemgetter i record = py_get record (int i)"

definition itemgetter2 :: "nat \<Rightarrow> nat \<Rightarrow> pyval list \<Rightarrow> pyval option" where
  "itemgetter2 i j record =
     (case py_get record (int i) of
        None \<Rightarrow> None
      | Some a \<Rightarrow> (case py_get record (int j) of None \<Rightarrow> None | Some b \<Rightarrow> Some (PTuple [a, b])))"

definition order_result :: "Table \<Rightarrow> pyval list \<Rightarrow> pyval list list \<Rightarrow> error + pyval list list" where
  "order_result table order result =
     (let order_indices = List.map_filter (\<lambda>name. get_column_index table name)
                            (filter (\<lambda>name. py_in name (column_names table)) order);
          reverse = (if py_in (PStr ''DESC'') order then True else False)
      in if length order_indices = 1 then py_sort (itemgetter (order_indices ! 0)) reverse result
         else if length order_indices < 2 then Inl IndexError
         else py_sort (itemgetter2 (order_indices ! 0) (order_indices ! 1)) reverse result)"

subsection \<open>Projection\<close>

text \<open>An entry of \<^verbatim>\<open>columns_index\<close>: a column position or the string \<^verbatim>\<open>"*"\<close>.\<close>

datatype colref = ColIndex nat | Star

fun collect_indices :: "Table \<Rightarrow> pyval list \<Rightarrow> error + colref list" where
  "collect_indices table [] = Inr []"
| "collect_indices table (name # names) =
     (case py_index (column_names table) name of
        Some i \<Rightarrow> map_sum id (\<lambda>is. ColIndex i # is) (collect_indices table names)
      | None \<Rightarrow>
          (case py_in_str name (PStr ''*'') of
             Inl e \<Rightarrow> Inl e
           | Inr True \<Rightarrow> map_sum id (\<lambda>is. Star # is) (collect_indices table names)
           | Inr False \<Rightarrow> collect_indices table names))"

text \<open>\<^verbatim>\<open>distinct is not None and x == distinct[0]\<close>\<close>

definition is_distinct :: "pyval list option \<Rightarrow> pyval \<Rightarrow> error + bool" where
  "is_distinct distinct_columns x =
     (case distinct_columns of
        None \<Rightarrow> Inr False
      | Some d \<Rightarrow> (case py_get d 0 of None \<Rightarrow> Inl IndexError | Some d0 \<Rightarrow> Inr (py_eq x d0)))"

text \<open>
  The inner loop over \<^verbatim>\<open>columns_index\<close> for one record. It carries the record built so
  far and \<^verbatim>\<open>distinct_column_set\<close>, a set in Python and here the list of its members.
\<close>

fun slim_record ::
  "Table \<Rightarrow> pyval list option \<Rightarrow> pyval list \<Rightarrow> colref list \<Rightarrow> pyval list \<Rightarrow> pyval list \<Rightarrow>
   error + pyval list \<times> pyval list" where
  "slim_record table distinct_columns record [] slimmed_record distinct_column_set =
     Inr (slimmed_record, distinct_column_set)"
| "slim_record table distinct_columns record (ColIndex index # rest) slimmed_record distinct_column_set =
     (case py_get (column_names table) (int index) of
        None \<Rightarrow> Inl IndexError
      | Some name \<Rightarrow>
          (case is_distinct distinct_columns name of
             Inl e \<Rightarrow> Inl e
           | Inr True \<Rightarrow>
               (case py_get record (int index) of
                  None \<Rightarrow> Inl IndexError
                | Some cell \<Rightarrow>
                    if \<not> py_in cell distinct_column_set
                    then slim_record table distinct_columns record rest (slimmed_record @ [cell])
                           (distinct_column_set @ [cell])
                    else slim_record table distinct_columns record rest slimmed_record distinct_column_set)
           | Inr False \<Rightarrow>
               (case py_get record (int index) of
                  None \<Rightarrow> Inl IndexError
                | Some cell \<Rightarrow>
                    slim_record table distinct_columns record rest (slimmed_record @ [cell])
                      distinct_column_set)))"
| "slim_record table distinct_columns record (Star # rest) slimmed_record distinct_column_set =
     (case is_distinct distinct_columns (PStr ''*'') of
        Inl e \<Rightarrow> Inl e
      | Inr True \<Rightarrow>
          if \<not> py_in (PTuple record) distinct_column_set
          then slim_record table distinct_columns record rest (slimmed_record @ [PTuple record])
                 (distinct_column_set @ [PTuple record])
          else slim_record table distinct_columns record rest slimmed_record distinct_column_set
      | Inr False \<Rightarrow>
          slim_record table distinct_columns record rest (slimmed_record @ record) distinct_column_set)"

text \<open>The outer loop over the records: a record that ends empty is left out.\<close>

fun slim_result ::
  "Table \<Rightarrow> pyval list option \<Rightarrow> colref list \<Rightarrow> pyval list list \<Rightarrow> pyval list \<Rightarrow>
   error + pyval list list" where
  "slim_result table distinct_columns columns_index [] distinct_column_set = Inr []"
| "slim_result table distinct_columns columns_index (record # result) distinct_column_set =
     (case slim_record table distinct_columns record columns_index [] distinct_column_set of
        Inl e \<Rightarrow> Inl e
      | Inr (slimmed_record, distinct_column_set') \<Rightarrow>
          if length slimmed_record \<noteq> 0
          then map_sum id (\<lambda>slimmed_result. slimmed_record # slimmed_result)
                 (slim_result table distinct_columns columns_index result distinct_column_set')
          else slim_result table distinct_columns columns_index result distinct_column_set')"

text \<open>
  \<^verbatim>\<open>Connection.select\<close> reads nothing of the connection. A tuple of the result is the
  list of its cells.
\<close>

definition select ::
  "Table \<Rightarrow> pyval list \<Rightarrow> pyval list option \<Rightarrow> pyval list option \<Rightarrow> pyval list option \<Rightarrow>
   error + pyval list list" where
  "select table columns distinct_columns conditions order =
     (case (case conditions of
              None \<Rightarrow> Inr (PNone, PNone)
            | Some cs \<Rightarrow> if cs = [] then Inr (PNone, PNone) else condition_op_value cs) of
        Inl e \<Rightarrow> Inl e
      | Inr (op, value) \<Rightarrow>
          if length columns > 0
          then (case filter_rows table conditions op value (rows table) of
                  Inl e \<Rightarrow> Inl e
                | Inr result \<Rightarrow>
                    (case (case order of
                             None \<Rightarrow> Inr result
                           | Some ord \<Rightarrow> if ord = [] then Inr result else order_result table ord result) of
                       Inl e \<Rightarrow> Inl e
                     | Inr sorted_result \<Rightarrow>
                         (case collect_indices table columns of
                            Inl e \<Rightarrow> Inl e
                          | Inr columns_index \<Rightarrow>
                              slim_result table distinct_columns columns_index sorted_result [])))
          else Inr [])"

subsection \<open>What DISTINCT is to produce\<close>

text \<open>
  The reference for the projection loop, written from its description and not from the
  code. \<^verbatim>\<open>spec_distinct_cells\<close> gives the cells of one retained record for the
  projected column positions \<^verbatim>\<open>js\<close>: every cell but the one of the DISTINCT column,
  which is left out when \<^verbatim>\<open>omit\<close> says its value was emitted before (and at a second
  mention of the column in the same projection). \<^verbatim>\<open>spec_distinct_rows\<close> runs over the
  retained records in order; a value was emitted before when an earlier retained record
  has an equal value in the DISTINCT column \<^verbatim>\<open>i\<close>.
\<close>

fun spec_distinct_cells :: "nat \<Rightarrow> bool \<Rightarrow> pyval list \<Rightarrow> nat list \<Rightarrow> pyval list" where
  "spec_distinct_cells i omit record [] = []"
| "spec_distinct_cells i omit record (j # js) =
     (if j = i then (if omit then [] else [record ! j]) @ spec_distinct_cells i True record js
      else record ! j # spec_distinct_cells i omit record js)"

fun spec_distinct_rows :: "nat \<Rightarrow> nat list \<Rightarrow> pyval list list \<Rightarrow> pyval list list \<Rightarrow> pyval list list" where
  "spec_distinct_rows i js earlier [] = []"
| "spec_distinct_rows i js earlier (record # result) =
     spec_distinct_cells i (list_ex (\<lambda>r. py_eq (r ! i) (record ! i)) earlier) record js
       # spec_distinct_rows i js (earlier @ [record]) result"

text \<open>
  The records \<^verbatim>\<open>select\<close> has retained and ordered when it starts to project them.
\<close>

definition retained_records ::
  "Table \<Rightarrow> pyval list option \<Rightarrow> pyval list option \<Rightarrow> error + pyval list list" where
  "retained_records table conditions order =
     (case (case conditions of
              None \<Rightarrow> Inr (PNone, PNone)
            | Some cs \<Rightarrow> if cs = [] then Inr (PNone, PNone) else condition_op_value cs) of
        Inl e \<Rightarrow> Inl e
      | Inr (op, value) \<Rightarrow>
          (case filter_rows table conditions op value (rows table) of
             Inl e \<Rightarrow> Inl e
           | Inr result \<Rightarrow>
               (case order of
                  None \<Rightarrow> Inr result
                | Some ord \<Rightarrow> if ord = [] then Inr result else order_result table ord result)))"

subsection \<open>What a view's schema is to be\<close>

text \<open>
  The reference for the schema of a view, written from its description: the backing
  schema with the qualification stripped from the column names and, unless the declared
  column list is the single wildcard, restricted to the declared columns in list order.
  A declared column may itself be qualified; it names the backing column that has its
  unqualified name.
\<close>

fun spec_unqualified :: "pyval \<Rightarrow> pyval" where
  "spec_unqualified (PStr s) =
     (if CHR ''.'' \<in> set s then PStr (tl (dropWhile (\<lambda>c. c \<noteq> CHR ''.'') s)) else PStr s)"
| "spec_unqualified v = v"

definition spec_view_schema :: "pyval list \<Rightarrow> pyval dict \<Rightarrow> pyval dict" where
  "spec_view_schema view_columns table_schema =
     (let unqualified = map (\<lambda>(c, t). (spec_unqualified c, t)) table_schema
      in if view_columns = [PStr ''*''] then unqualified
         else concat (map (\<lambda>c. case dict_get unqualified (spec_unqualified c) of
                                  Some t \<Rightarrow> [(spec_unqualified c, t)]
                                | None \<Rightarrow> []) view_columns))"

section \<open>Connections\<close>

subsection \<open>The state of the process\<close>

text \<open>
  \<^verbatim>\<open>Database\<close> objects are shared by reference: the registry \<^verbatim>\<open>_ALL_DATABASES\<close> maps a
  filename to one, and \<^verbatim>\<open>self.database\<close> of a connection is that same object or a deep
  copy of it. So the objects live in a store, addressed by numbers; \<^verbatim>\<open>next_addr\<close> is the
  first address not yet used. The lock system of a file is created once and never
  replaced, so the \<^verbatim>\<open>lock_system\<close> attribute of a connection is the entry of its
  filename in \<^verbatim>\<open>_ALL_DATABASES_LOCKSYSTEMS\<close>.
\<close>

record Globals =
  heap :: "nat \<Rightarrow> Database"
  next_addr :: nat
  ALL_DATABASES :: "string \<Rightarrow> nat option"
  ALL_DATABASES_LOCKSYSTEMS :: "string \<Rightarrow> LockSystem"

record Connection =
  filename :: string
  database :: nat
  transaction_mode :: "string option"
  transaction_lock :: "string option"

type_synonym state = "Connection \<times> Globals"

text \<open>What \<^verbatim>\<open>execute\<close> returns: \<^verbatim>\<open>None\<close> or a list of tuples.\<close>

datatype result = RNone | RRows "pyval list list"

text \<open>\<^verbatim>\<open>copy.deepcopy\<close> of the database at an address: a new object with the same contents.\<close>

definition deepcopy :: "nat \<Rightarrow> Globals \<Rightarrow> nat \<times> Globals" where
  "deepcopy a g =
     (next_addr g, g\<lparr>heap := (heap g)(next_addr g := heap g a), next_addr := Suc (next_addr g)\<rparr>)"

text \<open>The object \<^verbatim>\<open>self.database\<close>, and a mutation of it.\<close>

definition get_db :: "state \<Rightarrow> Database" where
  "get_db s = heap (snd s) (database (fst s))"

definition put_db :: "state \<Rightarrow> Database \<Rightarrow> state" where
  "put_db s db = (fst s, (snd s)\<lparr>heap := (heap (snd s))(database (fst s) := db)\<rparr>)"

definition lock_system :: "state \<Rightarrow> LockSystem" where
  "lock_system s = ALL_DATABASES_LOCKSYSTEMS (snd s) (filename (fst s))"

definition set_lock_system :: "state \<Rightarrow> LockSystem \<Rightarrow> state" where
  "set_lock_system s ls =
     (fst s, (snd s)\<lparr>ALL_DATABASES_LOCKSYSTEMS :=
        (ALL_DATABASES_LOCKSYSTEMS (snd s))(filename (fst s) := ls)\<rparr>)"

definition set_lock :: "state \<Rightarrow> string option \<Rightarrow> state" where
  "set_lock s l = ((fst s)\<lparr>transaction_lock := l\<rparr>, snd s)"

definition set_mode :: "state \<Rightarrow> string option \<Rightarrow> state" where
  "set_mode s m = ((fst s)\<lparr>transaction_mode := m\<rparr>, snd s)"

definition set_database :: "state \<Rightarrow> nat \<Rightarrow> state" where
  "set_database s a = ((fst s)\<lparr>database := a\<rparr>, snd s)"

text \<open>\<^verbatim>\<open>self.database = _ALL_DATABASES[self.filename]\<close>; KeyError without the entry.\<close>

definition use_committed :: "state \<Rightarrow> error option \<times> state" where
  "use_committed s =
     (case ALL_DATABASES (snd s) (filename (fst s)) of
        None \<Rightarrow> (Some KeyError, s)
      | Some a \<Rightarrow> (None, set_database s a))"

text \<open>\<^verbatim>\<open>self.database = copy.deepcopy(_ALL_DATABASES[self.filename])\<close>\<close>

definition use_copy :: "state \<Rightarrow> error option \<times> state" where
  "use_copy s =
     (case ALL_DATABASES (snd s) (filename (fst s)) of
        None \<Rightarrow> (Some KeyError, s)
      | Some a \<Rightarrow> (case deepcopy a (snd s) of (b, g') \<Rightarrow> (None, ((fst s)\<lparr>database := b\<rparr>, g'))))"

text \<open>\<^verbatim>\<open>_ALL_DATABASES[self.filename] = self.database\<close>\<close>

definition publish :: "state \<Rightarrow> state" where
  "publish s =
     (fst s, (snd s)\<lparr>ALL_DATABASES :=
        (ALL_DATABASES (snd s))(filename (fst s) := Some (database (fst s)))\<rparr>)"

text \<open>
  \<^verbatim>\<open>if self.lock_system.add_lock(lock_type, current): self.transaction_lock = lock_type\<close>.
  When \<^verbatim>\<open>add_lock\<close> raises nothing has changed.
\<close>

definition acquire :: "state \<Rightarrow> string \<Rightarrow> string option \<Rightarrow> error + bool \<times> state" where
  "acquire s lock_type current_lock =
     (case add_lock (lock_system s) lock_type current_lock of
        Inl e \<Rightarrow> Inl e
      | Inr (ok, ls) \<Rightarrow>
          Inr (ok, if ok then set_lock (set_lock_system s ls) (Some lock_type)
                   else set_lock_system s ls))"

text \<open>\<^verbatim>\<open>self.lock_system.remove_lock(self.transaction_lock); self.transaction_lock = None\<close>\<close>

definition release :: "state \<Rightarrow> state" where
  "release s =
     set_lock (set_lock_system s (remove_lock (lock_system s) (transaction_lock (fst s)))) None"

text \<open>A lock attribute is true when it is a string that is not empty.\<close>

definition lock_truthy :: "string option \<Rightarrow> bool" where
  "lock_truthy l \<longleftrightarrow> l \<noteq> None \<and> l \<noteq> Some []"

subsection \<open>lock\_check\<close>

text \<open>\<^verbatim>\<open>Connection.lock_check\<close>; the error, if it raises, and the state it leaves.\<close>

definition lock_check :: "state \<Rightarrow> string \<Rightarrow> error option \<times> state" where
  "lock_check s action =
     (if transaction_mode (fst s) = None then
        if action = ''read'' then
          (case acquire s ''shared'' (transaction_lock (fst s)) of
             Inl e \<Rightarrow> (Some e, s)
           | Inr (ok, s1) \<Rightarrow> if ok then use_committed s1 else (None, s1))
        else if action = ''write'' then
          (case acquire s ''exclusive'' (transaction_lock (fst s)) of
             Inl e \<Rightarrow> (Some e, s)
           | Inr (ok, s1) \<Rightarrow> if ok then use_copy s1 else (None, s1))
        else if action = ''commit'' then
          (case acquire s ''exclusive'' (transaction_lock (fst s)) of
             Inl e \<Rightarrow> (Some e, s)
           | Inr (ok, s1) \<Rightarrow> if ok then (None, publish (release s1)) else (None, s1))
        else if action = ''relinquish'' then (None, release s)
        else (None, s)
      else if transaction_mode (fst s) = Some ''DEFERRED'' then
        if action = ''read'' then
          (if lock_truthy (transaction_lock (fst s)) then (None, s)
           else (case acquire s ''shared'' (transaction_lock (fst s)) of
                   Inl e \<Rightarrow> (Some e, s)
                 | Inr (ok, s1) \<Rightarrow> (None, s1)))
        else if action = ''write'' then
          (case acquire s ''reserved'' (transaction_lock (fst s)) of
             Inl e \<Rightarrow> (Some e, s)
           | Inr (ok, s1) \<Rightarrow> (None, s1))
        else (None, s)
      else if transaction_mode (fst s) = Some ''IMMEDIATE'' then
        if action = ''read'' then (None, s)
        else if action = ''write'' then
          (if lock_truthy (transaction_lock (fst s)) \<and> transaction_lock (fst s) = Some ''exclusive''
           then (None, s)
           else (case acquire s ''reserved'' (transaction_lock (fst s)) of
                   Inl e \<Rightarrow> (Some e, s)
                 | Inr (ok, s1) \<Rightarrow> (None, s1)))
        else (None, s)
      else (None, s))"

subsection \<open>BEGIN, COMMIT, ROLLBACK\<close>

definition exec_begin :: "pyval list \<Rightarrow> state \<Rightarrow> result outcome \<times> state" where
  "exec_begin tokens s =
     (if transaction_mode (fst s) \<noteq> None then (Raises BeginInsideTransaction, s)
      else
        (case py_get tokens 1 of
           None \<Rightarrow> (Raises IndexError, s)
         | Some mode \<Rightarrow>
             if mode = PStr ''DEFERRED'' \<or> mode = PStr ''TRANSACTION'' then
               (case use_copy s of
                  (Some e, s1) \<Rightarrow> (Raises e, s1)
                | (None, s1) \<Rightarrow> (Returns RNone, set_lock (set_mode s1 (Some ''DEFERRED'')) None))
             else if mode = PStr ''IMMEDIATE'' then
               (case use_copy s of
                  (Some e, s1) \<Rightarrow> (Raises e, s1)
                | (None, s1) \<Rightarrow>
                    (case acquire (set_mode s1 (Some ''IMMEDIATE'')) ''reserved'' None of
                       Inl e \<Rightarrow> (Raises e, set_mode s1 (Some ''IMMEDIATE''))
                     | Inr (ok, s2) \<Rightarrow> (Returns RNone, s2)))
             else if mode = PStr ''EXCLUSIVE'' then
               (case use_copy s of
                  (Some e, s1) \<Rightarrow> (Raises e, s1)
                | (None, s1) \<Rightarrow>
                    (case acquire (set_mode s1 (Some ''EXCLUSIVE'')) ''exclusive'' None of
                       Inl e \<Rightarrow> (Raises e, set_mode s1 (Some ''EXCLUSIVE''))
                     | Inr (ok, s2) \<Rightarrow> (Returns RNone, s2)))
             else (Raises UnsupportedTransactionMode, s)))"

definition exec_commit :: "state \<Rightarrow> result outcome \<times> state" where
  "exec_commit s =
     (if transaction_mode (fst s) = None then (Raises CommitWithoutBegin, s)
      else if transaction_lock (fst s) = None then
        (case use_committed (set_mode s None) of
           (Some e, s1) \<Rightarrow> (Raises e, s1)
         | (None, s1) \<Rightarrow> (Returns RNone, s1))
      else if transaction_lock (fst s) = Some ''shared'' then
        (case use_committed (set_mode (release s) None) of
           (Some e, s1) \<Rightarrow> (Raises e, s1)
         | (None, s1) \<Rightarrow> (Returns RNone, s1))
      else if transaction_lock (fst s) = Some ''reserved'' then
        (case acquire s ''exclusive'' (transaction_lock (fst s)) of
           Inl e \<Rightarrow> (Raises e, s)
         | Inr (ok, s1) \<Rightarrow>
             if ok then (Returns RNone, publish (set_mode (release s1) None))
             else (Returns RNone, s1))
      else if transaction_lock (fst s) = Some ''exclusive'' then
        (Returns RNone, publish (set_mode (release s) None))
      else (Returns RNone, s))"

definition exec_rollback :: "state \<Rightarrow> result outcome \<times> state" where
  "exec_rollback s =
     (if transaction_mode (fst s) = None then (Raises RollbackOutsideTransaction, s)
      else
        (case use_committed (set_mode (release s) None) of
           (Some e, s1) \<Rightarrow> (Raises e, s1)
         | (None, s1) \<Rightarrow> (Returns RNone, s1)))"

subsection \<open>Reading the token list\<close>

text \<open>\<^verbatim>\<open>statement_tokens[i] == "word"\<close>; IndexError when there is no such token.\<close>

definition tok_eq :: "pyval list \<Rightarrow> int \<Rightarrow> string \<Rightarrow> error + bool" where
  "tok_eq tokens i word =
     (case py_get tokens i of None \<Rightarrow> Inl IndexError | Some t \<Rightarrow> Inr (t = PStr word))"

text \<open>\<^verbatim>\<open>a and b\<close>: \<^verbatim>\<open>b\<close> counts only when \<^verbatim>\<open>a\<close> is true.\<close>

definition and_then :: "error + bool \<Rightarrow> error + bool \<Rightarrow> error + bool" where
  "and_then a b = (case a of Inl e \<Rightarrow> Inl e | Inr True \<Rightarrow> b | Inr False \<Rightarrow> Inr False)"

definition sql_keywords :: "pyval list" where
  "sql_keywords = [PStr ''CREATE'', PStr ''SELECT'', PStr ''INSERT'', PStr ''DELETE'', PStr ''FROM'',
               PStr ''ORDER'', PStr ''GROUP'', PStr ''WHERE'']"

definition aggregate_keywords :: "string list" where
  "aggregate_keywords = [''MAX'', ''MIN'']"

text \<open>\<^verbatim>\<open>[c for c in xs if c != ","]\<close>\<close>

definition without_commas :: "pyval list \<Rightarrow> pyval list" where
  "without_commas xs = filter (\<lambda>column_name. column_name \<noteq> PStr '','') xs"

text \<open>\<^verbatim>\<open>[v for v in xs if v is None or v != ","]\<close>\<close>

definition condition_tokens :: "pyval list \<Rightarrow> pyval list" where
  "condition_tokens xs = filter (\<lambda>value. value = PNone \<or> value \<noteq> PStr '','') xs"

text \<open>\<^verbatim>\<open>[v for v in xs if v is None or v != "," and v not in keywords]\<close>\<close>

definition predicate_tokens :: "pyval list \<Rightarrow> pyval list" where
  "predicate_tokens xs =
     filter (\<lambda>value. value = PNone \<or> value \<noteq> PStr '','' \<and> \<not> py_in value sql_keywords) xs"

lemma first_index_range:
  "first_index x xs k = Some i \<Longrightarrow> k \<le> i \<and> i < k + length xs \<and> py_eq (xs ! (i - k)) x"
proof (induction xs arbitrary: k)
  case Nil
  then show ?case by simp
next
  case (Cons y ys)
  show ?case
  proof (cases "py_eq y x")
    case True
    with Cons.prems show ?thesis by simp
  next
    case False
    with Cons.prems have "first_index x ys (Suc k) = Some i" by simp
    from Cons.IH[OF this] have "Suc k \<le> i" "i < Suc k + length ys" "py_eq (ys ! (i - Suc k)) x"
      by simp_all
    then show ?thesis by (simp add: nth_Cons' Suc_diff_Suc)
  qed
qed

lemma py_index_from_range:
  assumes "py_index_from xs x (int start) = Some i"
  shows "start \<le> i \<and> i < length xs \<and> py_eq (xs ! i) x"
proof -
  define lo where "lo = slice_bound (length xs) (int start)"
  have lo: "lo = min start (length xs)" by (simp add: lo_def slice_bound_def)
  from assms have "first_index x (drop lo xs) lo = Some i"
    by (simp add: py_index_from_def lo_def Let_def)
  from first_index_range[OF this]
  have r: "lo \<le> i" "i < lo + length (drop lo xs)" "py_eq (drop lo xs ! (i - lo)) x" by simp_all
  from r(2) lo have "i < length xs" by simp
  moreover from r(1) this lo have "start \<le> i" by simp
  moreover from r(1,3) \<open>i < length xs\<close> have "py_eq (xs ! i) x" by (simp add: lo)
  ultimately show ?thesis by simp
qed

subsection \<open>Statements that write\<close>

text \<open>
  CREATE TABLE, DROP TABLE, INSERT, DELETE and UPDATE have one shape: \<^verbatim>\<open>lock_check("write")\<close>,
  work on \<^verbatim>\<open>self.database\<close>, then \<^verbatim>\<open>lock_check("commit")\<close> when no transaction is open,
  and \<^verbatim>\<open>return None\<close>. The work is a function of the database that gives the database
  it leaves and how it ended: it raised, or got to the end (\<^term>\<open>True\<close>), or returned
  early before the commit (\<^term>\<open>False\<close>).
\<close>

definition write_statement ::
  "(Database \<Rightarrow> bool outcome \<times> Database) \<Rightarrow> state \<Rightarrow> result outcome \<times> state" where
  "write_statement body s =
     (case lock_check s ''write'' of
        (Some e, s1) \<Rightarrow> (Raises e, s1)
      | (None, s1) \<Rightarrow>
          (case body (get_db s1) of
             (Raises e, db) \<Rightarrow> (Raises e, put_db s1 db)
           | (Diverges, db) \<Rightarrow> (Diverges, put_db s1 db)
           | (Returns finish, db) \<Rightarrow>
               if finish \<and> transaction_mode (fst s1) = None
               then (case lock_check (put_db s1 db) ''commit'' of
                       (Some e, s2) \<Rightarrow> (Raises e, s2)
                     | (None, s2) \<Rightarrow> (Returns RNone, s2))
               else (Returns RNone, put_db s1 db)))"

subsubsection \<open>CREATE TABLE\<close>

definition create_table_body :: "pyval list \<Rightarrow> Database \<Rightarrow> bool outcome \<times> Database" where
  "create_table_body tokens db =
     (case and_then (and_then (tok_eq tokens 2 ''IF'') (tok_eq tokens 3 ''NOT''))
             (tok_eq tokens 4 ''EXISTS'') of
        Inl e \<Rightarrow> (Raises e, db)
      | Inr if_not_exists \<Rightarrow>
          (case py_get tokens (if if_not_exists then 5 else 2) of
             None \<Rightarrow> (Raises IndexError, db)
           | Some table_name \<Rightarrow>
               if dict_has (tables db) table_name
               then (if if_not_exists then (Returns False, db) else (Raises CreateExistingTable, db))
               else
                 (case py_index tokens table_name of
                    None \<Rightarrow> (Raises ValueError, db)
                  | Some i \<Rightarrow>
                      (case add_table db table_name (py_slice tokens (int i + 2) (- 2)) of
                         Raises e \<Rightarrow> (Raises e, db)
                       | Diverges \<Rightarrow> (Diverges, db)
                       | Returns db' \<Rightarrow> (Returns True, db')))))"

subsubsection \<open>DROP TABLE\<close>

definition drop_table_body :: "pyval list \<Rightarrow> Database \<Rightarrow> bool outcome \<times> Database" where
  "drop_table_body tokens db =
     (case and_then (tok_eq tokens 2 ''IF'') (tok_eq tokens 3 ''EXISTS'') of
        Inl e \<Rightarrow> (Raises e, db)
      | Inr if_exists \<Rightarrow>
          (case py_get tokens (if if_exists then 4 else 2) of
             None \<Rightarrow> (Raises IndexError, db)
           | Some table_name \<Rightarrow>
               if \<not> dict_has (tables db) table_name
               then (if if_exists then (Returns False, db) else (Raises DropMissingTable, db))
               else
                 (case remove_table db table_name of
                    Inl e \<Rightarrow> (Raises e, db)
                  | Inr db' \<Rightarrow> (Returns True, db'))))"

subsubsection \<open>INSERT\<close>

text \<open>
  The loop over the value lists of an INSERT. From the second turn on \<^verbatim>\<open>entry_start\<close>
  is the position of the opening bracket itself, which the filter then drops. The table
  is the one the loop has reached when it ends or raises.
\<close>

function insert_loop ::
  "pyval list \<Rightarrow> pyval list option \<Rightarrow> nat \<Rightarrow> nat \<Rightarrow> nat \<Rightarrow> Table \<Rightarrow> unit outcome \<times> Table" where
  "insert_loop tokens columns_to_insert entry_start entry_end values_end table =
     (if entry_start < values_end
      then (case insert_row table
                   (ListValues (filter (\<lambda>value. value \<noteq> PStr '','' \<and> value \<noteq> PStr ''('')
                      (py_slice tokens (int entry_start) (int entry_end))))
                   columns_to_insert of
              Raises e \<Rightarrow> (Raises e, table)
            | Diverges \<Rightarrow> (Diverges, table)
            | Returns table' \<Rightarrow>
                if \<not> py_in (PStr ''('') (py_slice_from tokens (int entry_end))
                then (Returns (), table')
                else (case py_index_from tokens (PStr ''('') (int entry_end) of
                        None \<Rightarrow> (Raises ValueError, table')
                      | Some entry_start' \<Rightarrow>
                          (case py_index_from tokens (PStr '')'') (int entry_start') of
                             None \<Rightarrow> (Raises ValueError, table')
                           | Some entry_end' \<Rightarrow>
                               insert_loop tokens columns_to_insert entry_start' entry_end'
                                 values_end table')))
      else (Returns (), table))"
  by pat_completeness auto
termination insert_loop
proof (relation "measure (\<lambda>(tokens, cols, entry_start, entry_end, values_end, table).
                    length tokens - entry_end)")
  show "wf (measure (\<lambda>(tokens, cols, entry_start, entry_end, values_end, table).
                    length tokens - entry_end))"
    by simp
next
  fix tokens :: "pyval list" and columns_to_insert :: "pyval list option"
    and entry_start entry_end values_end :: nat and table x3 :: Table and x2 x2a :: nat
  assume a: "py_index_from tokens (PStr ''('') (int entry_end) = Some x2"
    and b: "py_index_from tokens (PStr '')'') (int x2) = Some x2a"
  from py_index_from_range[OF a] have 1: "entry_end \<le> x2" "x2 < length tokens"
    "tokens ! x2 = PStr ''(''"
    by (auto elim: py_eq.elims)
  from py_index_from_range[OF b] have 2: "x2 \<le> x2a" "x2a < length tokens"
    "tokens ! x2a = PStr '')''"
    by (auto elim: py_eq.elims)
  from 1 2 have "x2 \<noteq> x2a" by auto
  with 1 2 show "((tokens, columns_to_insert, x2, x2a, values_end, x3),
        tokens, columns_to_insert, entry_start, entry_end, values_end, table)
       \<in> measure (\<lambda>(tokens, cols, entry_start, entry_end, values_end, table).
                    length tokens - entry_end)"
    by simp
qed

declare insert_loop.simps [simp del]

definition insert_body :: "pyval list \<Rightarrow> Database \<Rightarrow> bool outcome \<times> Database" where
  "insert_body tokens db =
     (case py_get tokens 2 of
        None \<Rightarrow> (Raises IndexError, db)
      | Some table_name \<Rightarrow>
     (case dict_get (tables db) table_name of
        None \<Rightarrow> (Raises KeyError, db)
      | Some table \<Rightarrow>
     (case py_index tokens (PStr ''VALUES'') of
        None \<Rightarrow> (Raises ValueError, db)
      | Some values_index \<Rightarrow>
     (case tok_eq tokens (int values_index - 1) ''DEFAULT'' of
        Inl e \<Rightarrow> (Raises e, db)
      | Inr True \<Rightarrow>
          (case insert_row table (StrValues ''DEFAULT'') None of
             Raises e \<Rightarrow> (Raises e, db)
           | Diverges \<Rightarrow> (Diverges, db)
           | Returns table' \<Rightarrow>
               (Returns True, db\<lparr>tables := dict_set (tables db) table_name table'\<rparr>))
      | Inr False \<Rightarrow>
     (case (if int values_index - 3 \<noteq> 0
            then (case py_index_from tokens (PStr ''('') 2 of
                    None \<Rightarrow> Inl ValueError
                  | Some i \<Rightarrow>
                      (case py_index_between tokens (PStr '')'') (int i + 1) (int values_index) of
                         None \<Rightarrow> Inl ValueError
                       | Some cols_end \<Rightarrow>
                           Inr (Some (without_commas (py_slice tokens (int i + 1) (int cols_end))))))
            else Inr None) of
        Inl e \<Rightarrow> (Raises e, db)
      | Inr columns_to_insert \<Rightarrow>
     (case py_index_from tokens (PStr '';'') (int values_index) of
        None \<Rightarrow> (Raises ValueError, db)
      | Some values_end \<Rightarrow>
     (case py_index_from tokens (PStr ''('') (int values_index) of
        None \<Rightarrow> (Raises ValueError, db)
      | Some i \<Rightarrow>
     (case py_index_from tokens (PStr '')'') (int i + 1) of
        None \<Rightarrow> (Raises ValueError, db)
      | Some entry_end \<Rightarrow>
          (case insert_loop tokens columns_to_insert (i + 1) entry_end values_end table of
             (Raises e, table') \<Rightarrow>
               (Raises e, db\<lparr>tables := dict_set (tables db) table_name table'\<rparr>)
           | (Diverges, table') \<Rightarrow>
               (Diverges, db\<lparr>tables := dict_set (tables db) table_name table'\<rparr>)
           | (Returns u, table') \<Rightarrow>
               (Returns True, db\<lparr>tables := dict_set (tables db) table_name table'\<rparr>))))))))))"

subsubsection \<open>DELETE\<close>

text \<open>The rows that pass the condition, in table order; the first error stops the scan.\<close>

fun matching_rows :: "pyval \<Rightarrow> nat \<Rightarrow> pyval \<Rightarrow> pyval \<Rightarrow> Row list \<Rightarrow> error + bool list" where
  "matching_rows column_name column_index op value [] = Inr []"
| "matching_rows column_name column_index op value (row # rs) =
     (case check_row row column_name column_index op value of
        Inl e \<Rightarrow> Inl e
      | Inr b \<Rightarrow> map_sum id (\<lambda>bs. b # bs) (matching_rows column_name column_index op value rs))"

definition set_table :: "Database \<Rightarrow> pyval \<Rightarrow> Table \<Rightarrow> Database" where
  "set_table db table_name table = db\<lparr>tables := dict_set (tables db) table_name table\<rparr>"

text \<open>\<^verbatim>\<open>Connection.delete_from\<close>, on the database of the connection.\<close>

definition delete_from :: "Database \<Rightarrow> pyval \<Rightarrow> pyval list option \<Rightarrow> error option \<times> Database" where
  "delete_from db table_name conditions =
     (case dict_get (tables db) table_name of
        None \<Rightarrow> (Some KeyError, db)
      | Some table \<Rightarrow>
          if tb_size table = 0 then (None, db)
          else
            (case conditions of
               None \<Rightarrow> (None, set_table db table_name (table\<lparr>rows := [], tb_size := 0\<rparr>))
             | Some cs \<Rightarrow>
                 (case py_get cs 0 of
                    None \<Rightarrow> (Some IndexError, db)
                  | Some column_name \<Rightarrow>
                      (case get_column_index table column_name of
                         None \<Rightarrow> (Some ValueError, db)
                       | Some column_index \<Rightarrow>
                           (case condition_op_value cs of
                              Inl e \<Rightarrow> (Some e, db)
                            | Inr (op, value) \<Rightarrow>
                                (case matching_rows column_name column_index op value (rows table) of
                                   Inl e \<Rightarrow> (Some e, db)
                                 | Inr flags \<Rightarrow>
                                     (None, set_table db table_name
                                        (foldl remove_row table
                                           (map fst (filter snd (zip (rows table) flags)))))))))))"

definition delete_body :: "pyval list \<Rightarrow> Database \<Rightarrow> bool outcome \<times> Database" where
  "delete_body tokens db =
     (case py_get tokens 2 of
        None \<Rightarrow> (Raises IndexError, db)
      | Some table_name \<Rightarrow>
          (case (if py_in (PStr ''WHERE'') (py_slice_from tokens 1)
                 then (case py_index tokens (PStr ''WHERE'') of
                         None \<Rightarrow> Inl ValueError
                       | Some where_index \<Rightarrow>
                           Inr (Some (condition_tokens (py_slice tokens (int where_index + 1) (- 1)))))
                 else Inr None) of
             Inl e \<Rightarrow> (Raises e, db)
           | Inr conditions \<Rightarrow>
               (case delete_from db table_name conditions of
                  (Some e, db') \<Rightarrow> (Raises e, db')
                | (None, db') \<Rightarrow> (Returns True, db'))))"

subsubsection \<open>UPDATE\<close>

text \<open>The pairs \<^verbatim>\<open>[col, val]\<close> made from the tokens after SET, two at a time.\<close>

fun set_pairs :: "pyval list \<Rightarrow> error + (pyval \<times> pyval) list" where
  "set_pairs [] = Inr []"
| "set_pairs [col] = Inl IndexError"
| "set_pairs (col # val # rest) = map_sum id (\<lambda>ps. (col, val) # ps) (set_pairs rest)"

text \<open>The assignments to one row; an error leaves the row as far as it got.\<close>

fun apply_sets :: "Table \<Rightarrow> (pyval \<times> pyval) list \<Rightarrow> Row \<Rightarrow> error option \<times> Row" where
  "apply_sets table [] row = (None, row)"
| "apply_sets table ((col, val) # vs) row =
     (case get_column_index table col of
        None \<Rightarrow> (Some ValueError, row)
      | Some index \<Rightarrow>
          (case update_row row index val of
             Inl e \<Rightarrow> (Some e, row)
           | Inr row' \<Rightarrow> apply_sets table vs row'))"

text \<open>
  The update loop over the selected rows. Without a SET clause the values are
  \<^verbatim>\<open>None\<close>, and iterating over them raises TypeError at the first selected row.
\<close>

fun update_rows ::
  "Table \<Rightarrow> (pyval \<times> pyval) list option \<Rightarrow> (Row \<times> bool) list \<Rightarrow> error option \<times> Row list" where
  "update_rows table values [] = (None, [])"
| "update_rows table values ((row, selected) # rs) =
     (if selected
      then (case values of
              None \<Rightarrow> (Some TypeError, row # map fst rs)
            | Some vs \<Rightarrow>
                (case apply_sets table vs row of
                   (Some e, row') \<Rightarrow> (Some e, row' # map fst rs)
                 | (None, row') \<Rightarrow>
                     (case update_rows table values rs of (e, rs') \<Rightarrow> (e, row' # rs'))))
      else (case update_rows table values rs of (e, rs') \<Rightarrow> (e, row # rs')))"

text \<open>\<^verbatim>\<open>Connection.update_table\<close>; the table it leaves.\<close>

definition update_table ::
  "Table \<Rightarrow> (pyval \<times> pyval) list option \<Rightarrow> pyval list option \<Rightarrow> error option \<times> Table" where
  "update_table table values conditions =
     (if tb_size table = 0 then (None, table)
      else
        (case conditions of
           None \<Rightarrow>
             (case update_rows table values (map (\<lambda>row. (row, True)) (rows table)) of
                (e, rs) \<Rightarrow> (e, table\<lparr>rows := rs\<rparr>))
         | Some cs \<Rightarrow>
             (case py_get cs 0 of
                None \<Rightarrow> (Some IndexError, table)
              | Some column_name \<Rightarrow>
                  (case get_column_index table column_name of
                     None \<Rightarrow> (Some ValueError, table)
                   | Some column_index \<Rightarrow>
                       (case condition_op_value cs of
                          Inl e \<Rightarrow> (Some e, table)
                        | Inr (op, val) \<Rightarrow>
                            (case matching_rows column_name column_index op val (rows table) of
                               Inl e \<Rightarrow> (Some e, table)
                             | Inr flags \<Rightarrow>
                                 (case update_rows table values (zip (rows table) flags) of
                                    (e, rs) \<Rightarrow> (e, table\<lparr>rows := rs\<rparr>))))))))"

definition update_body :: "pyval list \<Rightarrow> Database \<Rightarrow> bool outcome \<times> Database" where
  "update_body tokens db =
     (case py_get tokens 1 of
        None \<Rightarrow> (Raises IndexError, db)
      | Some table_name \<Rightarrow>
     (case dict_get (tables db) table_name of
        None \<Rightarrow> (Raises KeyError, db)
      | Some table \<Rightarrow>
     (case py_index tokens (PStr '';'') of
        None \<Rightarrow> (Raises ValueError, db)
      | Some end_index0 \<Rightarrow>
     (case (if py_in (PStr ''WHERE'') (py_slice tokens 1 (int end_index0))
            then (case py_index tokens (PStr ''WHERE'') of
                    None \<Rightarrow> Inl ValueError
                  | Some where_index \<Rightarrow>
                      Inr (where_index,
                           Some (condition_tokens (py_slice tokens (int where_index + 1) (- 1)))))
            else Inr (end_index0, None)) of
        Inl e \<Rightarrow> (Raises e, db)
      | Inr (end_index, conditions) \<Rightarrow>
     (case (if py_in (PStr ''SET'') (py_slice tokens 1 (int end_index))
            then (case py_index tokens (PStr ''SET'') of
                    None \<Rightarrow> Inl ValueError
                  | Some set_index \<Rightarrow>
                      map_sum id Some
                        (set_pairs
                           (filter (\<lambda>value. value = PNone \<or> value \<noteq> PStr '','' \<and> value \<noteq> PStr ''='')
                              (py_slice tokens (int set_index + 1) (int end_index)))))
            else Inr None) of
        Inl e \<Rightarrow> (Raises e, db)
      | Inr set_values \<Rightarrow>
          (case update_table table set_values conditions of
             (Some e, table') \<Rightarrow> (Raises e, set_table db table_name table')
           | (None, table') \<Rightarrow> (Returns True, set_table db table_name table')))))))"

subsection \<open>LEFT OUTER JOIN\<close>

text \<open>
  The columns to display. A token that names neither table, is no comma and holds no
  \<^verbatim>\<open>*\<close> reaches \<^verbatim>\<open>column in table1.columns\<close>, and a table has no attribute
  \<^verbatim>\<open>columns\<close>: AttributeError.
\<close>

fun join_columns :: "pyval \<Rightarrow> pyval \<Rightarrow> pyval list \<Rightarrow> error + pyval list" where
  "join_columns table1_name table2_name [] = Inr []"
| "join_columns table1_name table2_name (column # rest) =
     (case py_in_str table1_name column of
        Inl e \<Rightarrow> Inl e
      | Inr True \<Rightarrow> map_sum id (\<lambda>cs. column # cs) (join_columns table1_name table2_name rest)
      | Inr False \<Rightarrow>
          (case py_in_str table2_name column of
             Inl e \<Rightarrow> Inl e
           | Inr True \<Rightarrow> map_sum id (\<lambda>cs. column # cs) (join_columns table1_name table2_name rest)
           | Inr False \<Rightarrow>
               if column = PStr '','' then join_columns table1_name table2_name rest
               else
                 (case py_in_str (PStr ''*'') column of
                    Inl e \<Rightarrow> Inl e
                  | Inr True \<Rightarrow>
                      map_sum id (\<lambda>cs. column # cs) (join_columns table1_name table2_name rest)
                  | Inr False \<Rightarrow> Inl AttributeError)))"

text \<open>The columns of one input table, added to the joined table under qualified names.\<close>

fun add_qualified_columns :: "pyval \<Rightarrow> (pyval \<times> pyval) list \<Rightarrow> Table \<Rightarrow> error + Table" where
  "add_qualified_columns name [] joined = Inr joined"
| "add_qualified_columns name ((col_name, col_type) # rest) joined =
     (case py_qualify name col_name of
        Inl e \<Rightarrow> Inl e
      | Inr q \<Rightarrow> add_qualified_columns name rest (add_column joined q col_type))"

text \<open>\<^verbatim>\<open>table.get_column_index(cond[len(table_name) + 1:])\<close>\<close>

definition comparator :: "Table \<Rightarrow> pyval \<Rightarrow> pyval option \<Rightarrow> error + nat" where
  "comparator table tbl_name cond =
     (case cond of
        None \<Rightarrow> Inl IndexError
      | Some c \<Rightarrow>
          (case py_len tbl_name of
             None \<Rightarrow> Inl TypeError
           | Some n \<Rightarrow>
               (case py_slice_from_val c (int n + 1) of
                  Inl e \<Rightarrow> Inl e
                | Inr column_name \<Rightarrow>
                    (case get_column_index table column_name of
                       None \<Rightarrow> Inl ValueError
                     | Some i \<Rightarrow> Inr i))))"

text \<open>The cell of every row at a position; IndexError for a row that is too short.\<close>

fun cells_at :: "nat \<Rightarrow> Row list \<Rightarrow> error + pyval list" where
  "cells_at i [] = Inr []"
| "cells_at i (row # rs) =
     (case py_get (data row) (int i) of
        None \<Rightarrow> Inl IndexError
      | Some v \<Rightarrow> map_sum id (\<lambda>vs. v # vs) (cells_at i rs))"

fun foreign_rows_of :: "nat \<Rightarrow> pyval list \<Rightarrow> Row list \<Rightarrow> error + Row list" where
  "foreign_rows_of i primary_keys [] = Inr []"
| "foreign_rows_of i primary_keys (row # rs) =
     (case py_get (data row) (int i) of
        None \<Rightarrow> Inl IndexError
      | Some v \<Rightarrow>
          if py_in v primary_keys
          then map_sum id (\<lambda>fs. row # fs) (foreign_rows_of i primary_keys rs)
          else foreign_rows_of i primary_keys rs)"

text \<open>The first foreign row with the key; the foreign rows all have a cell at the position.\<close>

fun first_match :: "pyval \<Rightarrow> nat \<Rightarrow> Row list \<Rightarrow> error + Row option" where
  "first_match pkey i [] = Inr None"
| "first_match pkey i (foreign_row # fs) =
     (case py_get (data foreign_row) (int i) of
        None \<Rightarrow> Inl IndexError
      | Some v \<Rightarrow> if py_eq pkey v then Inr (Some foreign_row) else first_match pkey i fs)"

fun join_rows :: "nat \<Rightarrow> nat \<Rightarrow> nat \<Rightarrow> Row list \<Rightarrow> Row list \<Rightarrow> Table \<Rightarrow> Table outcome" where
  "join_rows c1 c2 width [] foreign_rows joined = Returns joined"
| "join_rows c1 c2 width (row # rs) foreign_rows joined =
     (case py_get (data row) (int c1) of
        None \<Rightarrow> Raises IndexError
      | Some pkey \<Rightarrow>
          (case first_match pkey c2 foreign_rows of
             Inl e \<Rightarrow> Raises e
           | Inr m \<Rightarrow>
               (case insert_row joined
                       (ListValues (data row @ (case m of Some foreign_row \<Rightarrow> data foreign_row
                                                 | None \<Rightarrow> replicate width PNone)))
                       None of
                  Raises e \<Rightarrow> Raises e
                | Diverges \<Rightarrow> Diverges
                | Returns joined' \<Rightarrow> join_rows c1 c2 width rs foreign_rows joined')))"

text \<open>
  Everything the join branch computes from the tokens and the database before it stores
  the joined table: that table, the columns to display and the ordering.
\<close>

definition join_body ::
  "pyval list \<Rightarrow> Database \<Rightarrow> (Table \<times> pyval list \<times> pyval list option) outcome" where
  "join_body tokens db =
     (case py_index tokens (PStr ''LEFT'') of
        None \<Rightarrow> Raises ValueError
      | Some join_key_start \<Rightarrow>
     (case py_index_from tokens (PStr ''JOIN'') (int join_key_start) of
        None \<Rightarrow> Raises ValueError
      | Some join_key_end \<Rightarrow>
     (case py_get tokens (int join_key_start - 1) of
        None \<Rightarrow> Raises IndexError
      | Some table1_name \<Rightarrow>
     (case py_get tokens (int join_key_end + 1) of
        None \<Rightarrow> Raises IndexError
      | Some table2_name \<Rightarrow>
     (case dict_get (tables db) table1_name of
        None \<Rightarrow> Raises KeyError
      | Some table1 \<Rightarrow>
     (case dict_get (tables db) table2_name of
        None \<Rightarrow> Raises KeyError
      | Some table2 \<Rightarrow>
     (case py_index_from tokens (PStr ''ON'') (int join_key_end) of
        None \<Rightarrow> Raises ValueError
      | Some on_index \<Rightarrow>
     (let on_conditions = predicate_tokens (py_slice tokens (int on_index + 1) (int on_index + 4))
      in
     (case (if py_in (PStr ''ORDER'') (py_slice_from tokens 1)
            then (case py_index tokens (PStr '';'') of
                    None \<Rightarrow> Inl ValueError
                  | Some semicolon \<Rightarrow>
                      (case py_index_between tokens (PStr ''ORDER'') (int on_index) (int semicolon) of
                         None \<Rightarrow> Inl ValueError
                       | Some order_index \<Rightarrow>
                           Inr (Some (without_commas
                                  (py_slice tokens (int order_index + 2) (int semicolon))))))
            else Inr None) of
        Inl e \<Rightarrow> Raises e
      | Inr order \<Rightarrow>
     (case join_columns table1_name table2_name (py_slice tokens 1 (int join_key_start - 2)) of
        Inl e \<Rightarrow> Raises e
      | Inr columns \<Rightarrow>
     (case Table_init (PStr ''JoinedTable'') [] of
        Raises e \<Rightarrow> Raises e
      | Diverges \<Rightarrow> Diverges
      | Returns joined0 \<Rightarrow>
     (case add_qualified_columns (tb_name table1) (schema table1) joined0 of
        Inl e \<Rightarrow> Raises e
      | Inr joined1 \<Rightarrow>
     (case add_qualified_columns (tb_name table2) (schema table2) joined1 of
        Inl e \<Rightarrow> Raises e
      | Inr joined2 \<Rightarrow>
     (case comparator table1 table1_name (py_get on_conditions 0) of
        Inl e \<Rightarrow> Raises e
      | Inr table1_comparator \<Rightarrow>
     (case comparator table2 table2_name (py_get on_conditions (- 1)) of
        Inl e \<Rightarrow> Raises e
      | Inr table2_comparator \<Rightarrow>
     (case cells_at table1_comparator (rows table1) of
        Inl e \<Rightarrow> Raises e
      | Inr primary_keys \<Rightarrow>
     (case foreign_rows_of table2_comparator primary_keys (rows table2) of
        Inl e \<Rightarrow> Raises e
      | Inr foreign_rows \<Rightarrow>
     (case join_rows table1_comparator table2_comparator (column_size table2) (rows table1)
             foreign_rows joined2 of
        Raises e \<Rightarrow> Raises e
      | Diverges \<Rightarrow> Diverges
      | Returns joined \<Rightarrow> Returns (joined, columns, order)))))))))))))))))))"

definition exec_join :: "pyval list \<Rightarrow> state \<Rightarrow> result outcome \<times> state" where
  "exec_join tokens s =
     (case lock_check s ''read'' of
        (Some e, s1) \<Rightarrow> (Raises e, s1)
      | (None, s1) \<Rightarrow>
          (case join_body tokens (get_db s1) of
             Raises e \<Rightarrow> (Raises e, s1)
           | Diverges \<Rightarrow> (Diverges, s1)
           | Returns (joined, columns, order) \<Rightarrow>
               (let s2 = put_db s1 ((get_db s1)\<lparr>joined_table := JoinTable joined\<rparr>)
                in case select joined columns None None order of
                     Inl e \<Rightarrow> (Raises e, s2)
                   | Inr query_result \<Rightarrow>
                       if transaction_mode (fst s2) = None
                       then (case lock_check s2 ''relinquish'' of
                               (Some e, s3) \<Rightarrow> (Raises e, s3)
                             | (None, s3) \<Rightarrow> (Returns (RRows query_result), s3))
                       else (Returns (RRows query_result), s2))))"

subsection \<open>SELECT\<close>

text \<open>\<^verbatim>\<open>"." in column and table_name in column\<close>\<close>

definition qualified_by :: "pyval \<Rightarrow> pyval \<Rightarrow> error + bool" where
  "qualified_by table_name column =
     and_then (py_in_str (PStr ''.'') column) (py_in_str table_name column)"

text \<open>\<^verbatim>\<open>column[len(table_name) + 1:]\<close>\<close>

definition unqualified_part :: "pyval \<Rightarrow> pyval \<Rightarrow> error + pyval" where
  "unqualified_part table_name column =
     (case py_len table_name of
        None \<Rightarrow> Inl TypeError
      | Some n \<Rightarrow> py_slice_from_val column (int n + 1))"

text \<open>The projection list of a SELECT, with the qualification by the table name removed.\<close>

fun select_columns :: "pyval \<Rightarrow> pyval list \<Rightarrow> error + pyval list" where
  "select_columns table_name [] = Inr []"
| "select_columns table_name (column # rest) =
     (case qualified_by table_name column of
        Inl e \<Rightarrow> Inl e
      | Inr True \<Rightarrow>
          (case unqualified_part table_name column of
             Inl e \<Rightarrow> Inl e
           | Inr c \<Rightarrow> map_sum id (\<lambda>cs. c # cs) (select_columns table_name rest))
      | Inr False \<Rightarrow>
          if column \<noteq> PStr '','' \<and> column \<noteq> PStr ''DISTINCT''
          then map_sum id (\<lambda>cs. column # cs) (select_columns table_name rest)
          else select_columns table_name rest)"

text \<open>The same for the columns of ORDER BY, where every token stays.\<close>

fun order_columns :: "pyval \<Rightarrow> pyval list \<Rightarrow> error + pyval list" where
  "order_columns table_name [] = Inr []"
| "order_columns table_name (column # rest) =
     (case qualified_by table_name column of
        Inl e \<Rightarrow> Inl e
      | Inr True \<Rightarrow>
          (case unqualified_part table_name column of
             Inl e \<Rightarrow> Inl e
           | Inr c \<Rightarrow> map_sum id (\<lambda>cs. c # cs) (order_columns table_name rest))
      | Inr False \<Rightarrow> map_sum id (\<lambda>cs. column # cs) (order_columns table_name rest))"

text \<open>
  \<^verbatim>\<open>max\<close> and \<^verbatim>\<open>min\<close> of a list of tuples: each item is compared with the best so
  far, with \<^verbatim>\<open>>\<close> for \<^verbatim>\<open>max\<close> and \<^verbatim>\<open><\<close> for \<^verbatim>\<open>min\<close>.
\<close>

fun best_loop :: "bool \<Rightarrow> pyval list \<Rightarrow> pyval list list \<Rightarrow> error + pyval list" where
  "best_loop is_max best [] = Inr best"
| "best_loop is_max best (item # rest) =
     (case (if is_max then py_gt (PTuple item) (PTuple best) else py_lt (PTuple item) (PTuple best)) of
        Inl e \<Rightarrow> Inl e
      | Inr True \<Rightarrow> best_loop is_max item rest
      | Inr False \<Rightarrow> best_loop is_max best rest)"

definition py_max :: "pyval list list \<Rightarrow> error + pyval list" where
  "py_max xs = (case xs of [] \<Rightarrow> Inl ValueError | x # rest \<Rightarrow> best_loop True x rest)"

definition py_min :: "pyval list list \<Rightarrow> error + pyval list" where
  "py_min xs = (case xs of [] \<Rightarrow> Inl ValueError | x # rest \<Rightarrow> best_loop False x rest)"

text \<open>\<^verbatim>\<open>for row in result: view.insert_row(list(row), None)\<close>\<close>

fun insert_result_rows :: "Table \<Rightarrow> pyval list list \<Rightarrow> Table outcome" where
  "insert_result_rows v [] = Returns v"
| "insert_result_rows v (row # result) =
     (case insert_row v (ListValues row) None of
        Raises e \<Rightarrow> Raises e
      | Diverges \<Rightarrow> Diverges
      | Returns v' \<Rightarrow> insert_result_rows v' result)"

text \<open>
  What SELECT works out from the tokens once it has its table: the aggregate, the
  arguments of \<^verbatim>\<open>select\<close> and the rows \<^verbatim>\<open>select\<close> returns.
\<close>

definition select_query ::
  "pyval list \<Rightarrow> nat \<Rightarrow> pyval \<Rightarrow> Table \<Rightarrow> error + string option \<times> pyval list list" where
  "select_query tokens from_keyword table_name table =
     (let aggregate =
            (if py_in (PStr ''MAX'') tokens \<and>
                (case py_index tokens (PStr ''MAX'') of None \<Rightarrow> False | Some i \<Rightarrow> i < from_keyword)
             then Some ''MAX''
             else if py_in (PStr ''MIN'') tokens \<and>
                (case py_index tokens (PStr ''MIN'') of None \<Rightarrow> False | Some i \<Rightarrow> i < from_keyword)
             then Some ''MIN''
             else None)
      in
     (case (if py_in (PStr ''DISTINCT'') (py_slice_to tokens (int from_keyword))
            then (case py_index tokens (PStr ''DISTINCT'') of
                    None \<Rightarrow> Inl ValueError
                  | Some distinct_index \<Rightarrow>
                      (case py_get tokens (int distinct_index + 1) of
                         None \<Rightarrow> Inl IndexError
                       | Some d \<Rightarrow> Inr (Some [d], distinct_index)))
            else Inr (None, 1)) of
        Inl e \<Rightarrow> Inl e
      | Inr (distinct_columns, curr_index) \<Rightarrow>
     (case select_columns table_name (py_slice tokens (int curr_index) (int from_keyword)) of
        Inl e \<Rightarrow> Inl e
      | Inr columns \<Rightarrow>
     (case (if py_in (PStr ''WHERE'') (py_slice_from tokens (int from_keyword))
            then (case py_index tokens (PStr ''WHERE'') of
                    None \<Rightarrow> Inl ValueError
                  | Some where_index \<Rightarrow>
                      (let conditions =
                             predicate_tokens
                               (py_slice tokens (int where_index + 1) (int where_index + 4))
                       in case conditions of
                            [] \<Rightarrow> Inl IndexError
                          | c0 # cs \<Rightarrow>
                              (case qualified_by table_name c0 of
                                 Inl e \<Rightarrow> Inl e
                               | Inr True \<Rightarrow>
                                   (case unqualified_part table_name c0 of
                                      Inl e \<Rightarrow> Inl e
                                    | Inr c0' \<Rightarrow>
                                        Inr (Some (c0' # cs), from_keyword + length conditions + 1))
                               | Inr False \<Rightarrow>
                                   Inr (Some conditions, from_keyword + length conditions + 1))))
            else Inr (None, from_keyword)) of
        Inl e \<Rightarrow> Inl e
      | Inr (conditions, curr_index') \<Rightarrow>
     (case (if py_in (PStr ''ORDER'') (py_slice_from tokens (int curr_index' + 1))
            then map_sum id Some
                   (order_columns table_name
                      (without_commas (py_slice (py_slice_from tokens (int curr_index' + 4)) 0 (- 1))))
            else Inr None) of
        Inl e \<Rightarrow> Inl e
      | Inr order \<Rightarrow>
     (case select table columns distinct_columns conditions order of
        Inl e \<Rightarrow> Inl e
      | Inr query_result \<Rightarrow> Inr (aggregate, query_result)))))))"

text \<open>
  The SELECT branch. Reading a view runs its stored statement with \<^verbatim>\<open>self.execute\<close>,
  here \<^verbatim>\<open>rec\<close>, and stores a new view filled with the rows it returned.
\<close>

definition exec_select ::
  "(string \<Rightarrow> state \<Rightarrow> result outcome \<times> state) \<Rightarrow> pyval list \<Rightarrow> state \<Rightarrow> result outcome \<times> state" where
  "exec_select rec tokens s =
     (case lock_check s ''read'' of
        (Some e, s1) \<Rightarrow> (Raises e, s1)
      | (None, s1) \<Rightarrow>
     (case py_index tokens (PStr ''FROM'') of
        None \<Rightarrow> (Raises ValueError, s1)
      | Some from_keyword \<Rightarrow>
     (case py_get tokens (int from_keyword + 1) of
        None \<Rightarrow> (Raises IndexError, s1)
      | Some table_name \<Rightarrow>
     (case dict_get (tables (get_db s1)) table_name of
        None \<Rightarrow> (Raises KeyError, s1)
      | Some table0 \<Rightarrow>
     (case (case view table0 of
              None \<Rightarrow> (Returns table0, s1)
            | Some v \<Rightarrow>
                (case rec (vw_statement v) s1 of
                   (Raises e, s2) \<Rightarrow> (Raises e, s2)
                 | (Diverges, s2) \<Rightarrow> (Diverges, s2)
                 | (Returns res, s2) \<Rightarrow>
                     (case View_init (tb_name table0) table_name (vw_columns v) (schema table0)
                             (vw_statement v) of
                        Raises e \<Rightarrow> (Raises e, s2)
                      | Diverges \<Rightarrow> (Diverges, s2)
                      | Returns new_view \<Rightarrow>
                          (case res of
                             RNone \<Rightarrow> (Raises TypeError, s2)
                           | RRows rs \<Rightarrow>
                               (case insert_result_rows new_view rs of
                                  Raises e \<Rightarrow> (Raises e, s2)
                                | Diverges \<Rightarrow> (Diverges, s2)
                                | Returns table \<Rightarrow>
                                    (Returns table,
                                     put_db s2 (set_table (get_db s2) (tb_name table) table))))))) of
        (Raises e, s2) \<Rightarrow> (Raises e, s2)
      | (Diverges, s2) \<Rightarrow> (Diverges, s2)
      | (Returns table, s2) \<Rightarrow>
     (case select_query tokens from_keyword table_name table of
        Inl e \<Rightarrow> (Raises e, s2)
      | Inr (aggregate, query_result) \<Rightarrow>
     (case (if transaction_mode (fst s2) = None then lock_check s2 ''relinquish'' else (None, s2)) of
        (Some e, s3) \<Rightarrow> (Raises e, s3)
      | (None, s3) \<Rightarrow>
          if aggregate = Some ''MAX''
          then (case py_max query_result of
                  Inl e \<Rightarrow> (Raises e, s3)
                | Inr best \<Rightarrow> (Returns (RRows [best]), s3))
          else if aggregate = Some ''MIN''
          then (case py_min query_result of
                  Inl e \<Rightarrow> (Raises e, s3)
                | Inr best \<Rightarrow> (Returns (RRows [best]), s3))
          else (Returns (RRows query_result), s3))))))))"

subsection \<open>CREATE VIEW\<close>

definition exec_create_view ::
  "(string \<Rightarrow> state \<Rightarrow> result outcome \<times> state) \<Rightarrow> string \<Rightarrow> pyval list \<Rightarrow> state \<Rightarrow>
   result outcome \<times> state" where
  "exec_create_view rec statement tokens s =
     (case lock_check s ''read'' of
        (Some e, s1) \<Rightarrow> (Raises e, s1)
      | (None, s1) \<Rightarrow>
     (case py_get tokens 2 of
        None \<Rightarrow> (Raises IndexError, s1)
      | Some view_name \<Rightarrow>
     if dict_has (tables (get_db s1)) view_name then (Raises CreateExistingView, s1)
     else
     (case py_index tokens (PStr ''FROM'') of
        None \<Rightarrow> (Raises ValueError, s1)
      | Some from_index \<Rightarrow>
     (case py_index tokens (PStr ''SELECT'') of
        None \<Rightarrow> (Raises ValueError, s1)
      | Some select_index \<Rightarrow>
     (case py_get tokens (int from_index + 1) of
        None \<Rightarrow> (Raises IndexError, s1)
      | Some table_name0 \<Rightarrow>
     (let view_columns = without_commas (py_slice tokens (int select_index + 1) (int from_index));
          view_statement = py_slice_from statement (py_find statement ''SELECT'')
      in
     (case and_then (and_then (tok_eq tokens (int from_index + 2) ''LEFT'')
                       (tok_eq tokens (int from_index + 3) ''OUTER''))
             (tok_eq tokens (int from_index + 4) ''JOIN'') of
        Inl e \<Rightarrow> (Raises e, s1)
      | Inr is_join \<Rightarrow>
     if \<not> is_join \<and> \<not> dict_has (tables (get_db s1)) table_name0
     then (Raises ViewOfMissingTable, s1)
     else
     (case rec view_statement s1 of
        (Raises e, s2) \<Rightarrow> (Raises e, s2)
      | (Diverges, s2) \<Rightarrow> (Diverges, s2)
      | (Returns res, s2) \<Rightarrow>
     (case (if is_join
            then (case joined_table (get_db s2) of
                    JoinTable jt \<Rightarrow> Inr (tb_name jt, schema jt)
                  | NoJoin \<Rightarrow> Inl AttributeError
                  | JoinName n \<Rightarrow> Inl AttributeError)
            else (case dict_get (tables (get_db s2)) table_name0 of
                    None \<Rightarrow> Inl KeyError
                  | Some t \<Rightarrow> Inr (table_name0, schema t))) of
        Inl e \<Rightarrow> (Raises e, s2)
      | Inr (table_name, table_schema) \<Rightarrow>
     (case lock_check s2 ''write'' of
        (Some e, s3) \<Rightarrow> (Raises e, s3)
      | (None, s3) \<Rightarrow>
     (case add_view (get_db s3) view_name table_name view_columns table_schema view_statement of
        Raises e \<Rightarrow> (Raises e, s3)
      | Diverges \<Rightarrow> (Diverges, s3)
      | Returns db1 \<Rightarrow>
     (case dict_get (tables db1) view_name of
        None \<Rightarrow> (Raises KeyError, put_db s3 db1)
      | Some v \<Rightarrow>
     (case res of
        RNone \<Rightarrow> (Raises TypeError, put_db s3 db1)
      | RRows rs \<Rightarrow>
     (case insert_result_rows v rs of
        Raises e \<Rightarrow> (Raises e, put_db s3 db1)
      | Diverges \<Rightarrow> (Diverges, put_db s3 db1)
      | Returns v' \<Rightarrow>
          (let s4 = put_db s3 ((set_table db1 view_name v')\<lparr>joined_table := NoJoin\<rparr>)
           in if transaction_mode (fst s4) = None
              then (case lock_check s4 ''commit'' of
                      (Some e, s5) \<Rightarrow> (Raises e, s5)
                    | (None, s5) \<Rightarrow> (Returns RNone, s5))
              else (Returns RNone, s4))))))))))))))))"

subsection \<open>execute\<close>

text \<open>
  One call of \<^verbatim>\<open>Connection.execute\<close>, given what a nested call of it does. The branches
  are tried in the order of the source.
\<close>

definition run_statement ::
  "(string \<Rightarrow> state \<Rightarrow> result outcome \<times> state) \<Rightarrow> string \<Rightarrow> state \<Rightarrow> result outcome \<times> state" where
  "run_statement rec statement s =
     (case tokenize statement of
        Inl e \<Rightarrow> (Raises e, s)
      | Inr tokens \<Rightarrow>
     if length tokens = 0 \<or> py_get tokens (- 1) \<noteq> Some (PStr '';'') then (Raises NotValidStatement, s)
     else
     (case and_then (tok_eq tokens 0 ''BEGIN'') (tok_eq tokens (- 2) ''TRANSACTION'') of
        Inl e \<Rightarrow> (Raises e, s)
      | Inr True \<Rightarrow> exec_begin tokens s
      | Inr False \<Rightarrow>
     (case and_then (tok_eq tokens 0 ''COMMIT'') (tok_eq tokens 1 ''TRANSACTION'') of
        Inl e \<Rightarrow> (Raises e, s)
      | Inr True \<Rightarrow> exec_commit s
      | Inr False \<Rightarrow>
     (case and_then (tok_eq tokens 0 ''ROLLBACK'') (tok_eq tokens 1 ''TRANSACTION'') of
        Inl e \<Rightarrow> (Raises e, s)
      | Inr True \<Rightarrow> exec_rollback s
      | Inr False \<Rightarrow>
     (case and_then (tok_eq tokens 0 ''CREATE'') (tok_eq tokens 1 ''TABLE'') of
        Inl e \<Rightarrow> (Raises e, s)
      | Inr True \<Rightarrow> write_statement (create_table_body tokens) s
      | Inr False \<Rightarrow>
     (case and_then (tok_eq tokens 0 ''CREATE'') (tok_eq tokens 1 ''VIEW'') of
        Inl e \<Rightarrow> (Raises e, s)
      | Inr True \<Rightarrow> exec_create_view rec statement tokens s
      | Inr False \<Rightarrow>
     (case and_then (tok_eq tokens 0 ''DROP'') (tok_eq tokens 1 ''TABLE'') of
        Inl e \<Rightarrow> (Raises e, s)
      | Inr True \<Rightarrow> write_statement (drop_table_body tokens) s
      | Inr False \<Rightarrow>
     (case and_then (tok_eq tokens 0 ''INSERT'') (tok_eq tokens 1 ''INTO'') of
        Inl e \<Rightarrow> (Raises e, s)
      | Inr True \<Rightarrow> write_statement (insert_body tokens) s
      | Inr False \<Rightarrow>
     (case and_then (tok_eq tokens 0 ''DELETE'') (tok_eq tokens 1 ''FROM'') of
        Inl e \<Rightarrow> (Raises e, s)
      | Inr True \<Rightarrow> write_statement (delete_body tokens) s
      | Inr False \<Rightarrow>
     (case tok_eq tokens 0 ''UPDATE'' of
        Inl e \<Rightarrow> (Raises e, s)
      | Inr True \<Rightarrow> write_statement (update_body tokens) s
      | Inr False \<Rightarrow>
     if py_in (PStr ''LEFT'') tokens \<and> py_in (PStr ''OUTER'') tokens \<and> py_in (PStr ''JOIN'') tokens
     then exec_join tokens s
     else
     (case tok_eq tokens 0 ''SELECT'' of
        Inl e \<Rightarrow> (Raises e, s)
      | Inr True \<Rightarrow> exec_select rec tokens s
      | Inr False \<Rightarrow> (Returns RNone, s))))))))))))"

text \<open>
  \<^verbatim>\<open>Connection.execute\<close>. The first argument is how many calls of \<^verbatim>\<open>execute\<close> may
  still nest inside this one before the interpreter's recursion limit is reached; where
  it is used up the nested call raises RecursionError.
\<close>

fun execute :: "nat \<Rightarrow> string \<Rightarrow> state \<Rightarrow> result outcome \<times> state" where
  "execute 0 statement s = run_statement (\<lambda>stmt s'. (Raises RecursionError, s')) statement s"
| "execute (Suc depth) statement s = run_statement (execute depth) statement s"

subsection \<open>Opening a connection\<close>

text \<open>
  \<^verbatim>\<open>Connection.__init__\<close>. Reading the file is outside the program: \<^verbatim>\<open>loaded\<close> is the
  database \<^verbatim>\<open>read_json_file\<close> returns, or \<^term>\<open>None\<close> when it raises FileNotFoundError.
\<close>

definition Connection_init :: "string \<Rightarrow> Database option \<Rightarrow> Globals \<Rightarrow> error + state" where
  "Connection_init file loaded g =
     (let g1 = (if ALL_DATABASES g file = None
                then g\<lparr>heap := (heap g)(next_addr g :=
                            (case loaded of Some db \<Rightarrow> db | None \<Rightarrow> Database_init file)),
                       next_addr := Suc (next_addr g),
                       ALL_DATABASES := (ALL_DATABASES g)(file := Some (next_addr g)),
                       ALL_DATABASES_LOCKSYSTEMS :=
                         (ALL_DATABASES_LOCKSYSTEMS g)(file := LockSystem_init file)\<rparr>
                else g)
      in case ALL_DATABASES g1 file of
           None \<Rightarrow> Inl KeyError
         | Some a \<Rightarrow>
             Inr (\<lparr>filename = file, database = a, transaction_mode = None,
                    transaction_lock = None\<rparr>, g1))"

section \<open>Notions the claims are stated with\<close>

text \<open>The module starts with both registries empty and no database object made.\<close>

definition initial_globals :: Globals where
  "initial_globals =
     \<lparr>heap = (\<lambda>a. Database_init []), next_addr = 0, ALL_DATABASES = (\<lambda>file. None),
      ALL_DATABASES_LOCKSYSTEMS = (\<lambda>file. LockSystem_init file)\<rparr>"

text \<open>The errors of the transaction statements: the four the BEGIN, COMMIT and ROLLBACK branches raise.\<close>

definition transaction_state_error :: "error \<Rightarrow> bool" where
  "transaction_state_error e \<longleftrightarrow>
     e = BeginInsideTransaction \<or> e = UnsupportedTransactionMode \<or>
     e = CommitWithoutBegin \<or> e = RollbackOutsideTransaction"

section \<open>Properties of the lock system\<close>

text \<open>
  C9. For each of the three lock types L, \<^verbatim>\<open>add_lock(L, current_lock=L)\<close> returns
  \<^verbatim>\<open>True\<close> and leaves the lock system, so all three counters, as it was, whatever the
  counters are.
\<close>

theorem add_lock_idempotent:
  "add_lock ls ''shared'' (Some ''shared'') = Inr (True, ls) \<and>
   add_lock ls ''reserved'' (Some ''reserved'') = Inr (True, ls) \<and>
   add_lock ls ''exclusive'' (Some ''exclusive'') = Inr (True, ls)"
  by (simp add: add_lock_def)

subsection \<open>The counters in every run\<close>

lemma holders_upd:
  "holders (held(c := v)) l = (if v = Some l then insert c (holders held l) else holders held l - {c})"
  by (auto simp: holders_def)

lemma finite_holders: "finite {c. held c \<noteq> None} \<Longrightarrow> finite (holders held l)"
  by (rule finite_subset[of _ "{c. held c \<noteq> None}"]) (auto simp: holders_def)

lemma finite_upd: "finite {c. held c \<noteq> None} \<Longrightarrow> finite {c'. (held(c := v)) c' \<noteq> None}"
  by (rule finite_subset[of _ "insert c {c. held c \<noteq> None}"]) auto

lemma mem_holders: "c \<in> holders held l \<longleftrightarrow> held c = Some l"
  by (simp add: holders_def)

lemma card_holders_set:
  assumes "finite {c. held c \<noteq> None}"
  shows "int (card (holders (held(c := Some l)) l)) = int (card (holders held l)) + (if held c = Some l then 0 else 1)"
proof -
  have f: "finite (holders held l)" using assms by (rule finite_holders)
  have "holders (held(c := Some l)) l = insert c (holders held l)"
    by (simp add: holders_upd)
  then show ?thesis using f by (simp add: card_insert_if mem_holders)
qed

lemma card_holders_other:
  assumes "finite {c. held c \<noteq> None}" and "v \<noteq> Some l"
  shows "int (card (holders (held(c := v)) l)) = int (card (holders held l)) - (if held c = Some l then 1 else 0)"
proof -
  have f: "finite (holders held l)" using assms(1) by (rule finite_holders)
  have pos: "held c = Some l \<Longrightarrow> card (holders held l) > 0"
    using f by (auto simp: card_gt_0_iff mem_holders[symmetric])
  have "holders (held(c := v)) l = holders held l - {c}"
    using assms(2) by (simp add: holders_upd)
  then show ?thesis using f pos by (cases "held c = Some l") (auto simp: card_Diff_singleton_if mem_holders)
qed

lemma lock_inv_fresh: "lock_inv (LockSystem_init nm) (\<lambda>_. None)"
  by (simp add: lock_inv_def LockSystem_init_def holders_def)


lemma card_holders_pos:
  assumes "finite {c. held c \<noteq> None}" and "held c = Some l"
  shows "int (card (holders held l)) \<ge> 1"
proof -
  have f: "finite (holders held l)" using assms(1) by (rule finite_holders)
  have "c \<in> holders held l" using assms(2) by (simp add: mem_holders)
  with f have "card (holders held l) > 0" by (auto simp: card_gt_0_iff)
  then show ?thesis by simp
qed

lemma holders_le_upd_other:
  assumes "finite {c. held c \<noteq> None}" and "v \<noteq> Some l"
  shows "int (card (holders (held(c := v)) l)) \<le> int (card (holders held l))"
  using card_holders_other[OF assms, of c] by (simp split: if_splits)

lemma add_shared_inv:
  assumes "lock_inv ls held" and "add_shared ls = Inr (True, ls')"
  shows "lock_inv ls' (held(c := Some ''shared''))"
proof -
  from assms(1) have fin: "finite {c. held c \<noteq> None}" by (simp add: lock_inv_def)
  from assms(2) have ex0: "exclusive ls = 0" and ls': "ls' = ls\<lparr>shared := shared ls + 1\<rparr>"
    by (auto simp: add_shared_def has_exclusive_def split: if_splits)
  have s: "int (card (holders (held(c := Some ''shared'')) ''shared'')) \<le> int (card (holders held ''shared'')) + 1"
    using card_holders_set[OF fin, of c "''shared''"] by (simp split: if_splits)
  have r: "int (card (holders (held(c := Some ''shared'')) ''reserved'')) \<le> int (card (holders held ''reserved''))"
    by (rule holders_le_upd_other[OF fin]) simp
  have e: "int (card (holders (held(c := Some ''shared'')) ''exclusive'')) \<le> int (card (holders held ''exclusive''))"
    by (rule holders_le_upd_other[OF fin]) simp
  show ?thesis using assms(1) s r e ex0 finite_upd[OF fin, of c "Some ''shared''"]
    unfolding lock_inv_def ls' by simp
qed


lemma add_reserved_inv:
  assumes "lock_inv ls held" and "current_lock = held c \<or> current_lock = None"
    and "add_reserved ls current_lock = Inr (True, ls')"
  shows "lock_inv ls' (held(c := Some ''reserved''))"
proof -
  from assms(1) have fin: "finite {c. held c \<noteq> None}" by (simp add: lock_inv_def)
  from assms(3) have ex0: "exclusive ls = 0" and re0: "reserved ls = 0"
    by (auto simp: add_reserved_def has_exclusive_def has_reserved_def split: if_splits)
  from assms(1) re0 have nores: "card (holders held ''reserved'') = 0"
    by (simp add: lock_inv_def)
  have r: "int (card (holders (held(c := Some ''reserved'')) ''reserved'')) \<le> 1"
    using card_holders_set[OF fin, of c "''reserved''"] nores by (simp split: if_splits)
  have e: "int (card (holders (held(c := Some ''reserved'')) ''exclusive'')) \<le> int (card (holders held ''exclusive''))"
    by (rule holders_le_upd_other[OF fin]) simp
  have s: "int (card (holders (held(c := Some ''reserved'')) ''shared'')) =
        int (card (holders held ''shared'')) - (if held c = Some ''shared'' then 1 else 0)"
    by (rule card_holders_other[OF fin]) simp
  show ?thesis
  proof (cases "current_lock = Some ''shared''")
    case True
    with assms(2) have hc: "held c = Some ''shared''" by auto
    from assms(3) True ex0 re0 have ls': "ls' = ls\<lparr>shared := shared ls - 1, reserved := 1\<rparr>"
      by (simp add: add_reserved_def has_exclusive_def has_reserved_def remove_shared_def)
    show ?thesis using assms(1) s r e ex0 hc finite_upd[OF fin, of c "Some ''reserved''"]
      unfolding lock_inv_def ls' by simp
  next
    case False
    with assms(3) ex0 re0 have ls': "ls' = ls\<lparr>reserved := 1\<rparr>"
      by (auto simp: add_reserved_def has_exclusive_def has_reserved_def)
    show ?thesis using assms(1) s r e ex0 finite_upd[OF fin, of c "Some ''reserved''"]
      unfolding lock_inv_def ls' by (simp split: if_splits)
  qed
qed

lemma add_exclusive_inv:
  assumes "lock_inv ls held" and "current_lock = held c \<or> current_lock = None"
    and "add_exclusive ls current_lock = Inr (True, ls')"
  shows "lock_inv ls' (held(c := Some ''exclusive''))"
proof -
  from assms(1) have fin: "finite {c. held c \<noteq> None}" by (simp add: lock_inv_def)
  from assms(3) have ex0: "exclusive ls = 0" and sh0: "shared ls = 0"
    by (auto simp: add_exclusive_def has_exclusive_def has_shared_def split: if_splits)
  from assms(1) ex0 have noex: "card (holders held ''exclusive'') = 0"
    by (simp add: lock_inv_def)
  have e: "int (card (holders (held(c := Some ''exclusive'')) ''exclusive'')) \<le> 1"
    using card_holders_set[OF fin, of c "''exclusive''"] noex by (simp split: if_splits)
  have s: "int (card (holders (held(c := Some ''exclusive'')) ''shared'')) \<le> int (card (holders held ''shared''))"
    by (rule holders_le_upd_other[OF fin]) simp
  have r: "int (card (holders (held(c := Some ''exclusive'')) ''reserved'')) =
        int (card (holders held ''reserved'')) - (if held c = Some ''reserved'' then 1 else 0)"
    by (rule card_holders_other[OF fin]) simp
  show ?thesis
  proof (cases "reserved ls = 0")
    case True
    with assms(3) ex0 sh0 have ls': "ls' = ls\<lparr>exclusive := 1\<rparr>"
      by (simp add: add_exclusive_def has_exclusive_def has_reserved_def has_shared_def)
    show ?thesis using assms(1) s r e ex0 sh0 True finite_upd[OF fin, of c "Some ''exclusive''"]
      unfolding lock_inv_def ls' by (simp split: if_splits)
  next
    case False
    with assms(3) ex0 sh0 have cur: "current_lock = Some ''reserved''"
      and ls': "ls' = ls\<lparr>reserved := reserved ls - 1, exclusive := 1\<rparr>"
      by (auto simp: add_exclusive_def has_exclusive_def has_reserved_def has_shared_def split: if_splits)
    from cur assms(2) have hc: "held c = Some ''reserved''" by auto
    have "int (card (holders held ''reserved'')) \<ge> 1"
      using fin hc by (rule card_holders_pos)
    with assms(1) have re1: "reserved ls = 1" by (simp add: lock_inv_def)
    show ?thesis using assms(1) s r e ex0 sh0 hc re1 finite_upd[OF fin, of c "Some ''exclusive''"]
      unfolding lock_inv_def ls' by simp
  qed
qed

lemma lock_inv_added:
  assumes "lock_inv ls held" and "current_lock = held c \<or> current_lock = None"
    and "add_lock ls lock_type current_lock = Inr (True, ls')"
  shows "lock_inv ls' (held(c := Some lock_type))"
proof (cases "current_lock = Some lock_type")
  case True
  with assms(2) have "held c = Some lock_type" by auto
  then have same: "held(c := Some lock_type) = held" by (simp add: fun_upd_idem)
  show ?thesis
  proof (cases "lock_type = []")
    case False
    with True assms(3) have "ls' = ls" by (simp add: add_lock_def)
    with same assms(1) show ?thesis by simp
  next
    case e: True
    with assms(3) have "ls' = ls" by (simp add: add_lock_def)
    with same assms(1) show ?thesis by simp
  qed
next
  case False
  then have ne: "\<not> (current_lock \<noteq> None \<and> current_lock \<noteq> Some [] \<and> current_lock = Some lock_type)"
    by simp
  consider "lock_type = ''shared''" | "lock_type = ''reserved''" | "lock_type = ''exclusive''"
    using assms(3) ne unfolding add_lock_def by (auto split: if_splits)
  then show ?thesis
  proof cases
    case 1
    with assms(3) False have "add_shared ls = Inr (True, ls')" by (simp add: add_lock_def)
    with assms(1) show ?thesis unfolding 1 by (rule add_shared_inv)
  next
    case 2
    with assms(3) False have "add_reserved ls current_lock = Inr (True, ls')" by (simp add: add_lock_def)
    with assms(1,2) show ?thesis unfolding 2 by (rule add_reserved_inv)
  next
    case 3
    with assms(3) False have "add_exclusive ls current_lock = Inr (True, ls')" by (simp add: add_lock_def)
    with assms(1,2) show ?thesis unfolding 3 by (rule add_exclusive_inv)
  qed
qed

lemma lock_inv_removed:
  assumes "lock_inv ls held" and "held c = Some lock_type"
  shows "lock_inv (remove_lock ls (Some lock_type)) (held(c := None))"
proof -
  from assms(1) have fin: "finite {c. held c \<noteq> None}" by (simp add: lock_inv_def)
  have cs: "int (card (holders (held(c := None)) ''shared'')) =
        int (card (holders held ''shared'')) - (if held c = Some ''shared'' then 1 else 0)"
    by (rule card_holders_other[OF fin]) simp
  have cr: "int (card (holders (held(c := None)) ''reserved'')) =
        int (card (holders held ''reserved'')) - (if held c = Some ''reserved'' then 1 else 0)"
    by (rule card_holders_other[OF fin]) simp
  have ce: "int (card (holders (held(c := None)) ''exclusive'')) =
        int (card (holders held ''exclusive'')) - (if held c = Some ''exclusive'' then 1 else 0)"
    by (rule card_holders_other[OF fin]) simp
  have pos: "int (card (holders held lock_type)) \<ge> 1"
    using fin assms(2) by (rule card_holders_pos)
  have f': "finite {c'. (held(c := None)) c' \<noteq> None}" by (rule finite_upd[OF fin])
  consider "lock_type = ''shared''" | "lock_type = ''reserved''" | "lock_type = ''exclusive''"
    | "lock_type \<noteq> ''shared''" "lock_type \<noteq> ''reserved''" "lock_type \<noteq> ''exclusive''"
    by blast
  then show ?thesis
  proof cases
    case 1
    from pos assms(1) have "shared ls \<ge> 1" unfolding lock_inv_def 1 by linarith
    then show ?thesis using assms cs cr ce f' unfolding lock_inv_def 1
      by (auto simp: remove_lock_def remove_shared_def)
  next
    case 2
    from pos assms(1) have "reserved ls \<ge> 1" unfolding lock_inv_def 2 by linarith
    then show ?thesis using assms cs cr ce f' unfolding lock_inv_def 2
      by (auto simp: remove_lock_def remove_reserved_def)
  next
    case 3
    from pos assms(1) have "exclusive ls \<ge> 1" unfolding lock_inv_def 3 by linarith
    then show ?thesis using assms cs cr ce f' unfolding lock_inv_def 3
      by (auto simp: remove_lock_def remove_exclusive_def)
  next
    case 4
    show ?thesis using assms pos cs cr ce f' 4 unfolding lock_inv_def
      by (simp add: remove_lock_def)
  qed
qed

lemma lock_run_inv: "lock_run ls held \<Longrightarrow> lock_inv ls held"
proof (induction rule: lock_run.induct)
  case (fresh nm)
  show ?case by (rule lock_inv_fresh)
next
  case (added ls held current_lock c lock_type ls')
  then show ?case by (blast intro: lock_inv_added)
next
  case (removed ls held c lock_type)
  then show ?case by (blast intro: lock_inv_removed)
qed

text \<open>
  C2. From a fresh lock system, after any sequence of successful \<^verbatim>\<open>add_lock\<close> calls
  and of \<^verbatim>\<open>remove_lock\<close> calls that each name the lock the removing connection holds,
  \<^verbatim>\<open>exclusive\<close> and \<^verbatim>\<open>reserved\<close> are at most 1, and when \<^verbatim>\<open>exclusive\<close> is 1 both
  \<^verbatim>\<open>shared\<close> and \<^verbatim>\<open>reserved\<close> are 0.
\<close>

theorem lock_counters_invariant:
  assumes "lock_run ls held"
  shows "exclusive ls \<le> 1 \<and> reserved ls \<le> 1 \<and>
         (exclusive ls = 1 \<longrightarrow> shared ls = 0 \<and> reserved ls = 0)"
  using lock_run_inv[OF assms] by (simp add: lock_inv_def)

theorem lock_counters_invariant_witness:
  "lock_run \<lparr>ls_name = ''db'', shared = 0, reserved = 0, exclusive = 1\<rparr>
     ((\<lambda>_. None)(0 := Some ''exclusive'')) \<and>
   exclusive \<lparr>ls_name = ''db'', shared = 0, reserved = 0, exclusive = 1\<rparr> = 1 \<and>
   shared \<lparr>ls_name = ''db'', shared = 0, reserved = 0, exclusive = 1\<rparr> = 0 \<and>
   reserved \<lparr>ls_name = ''db'', shared = 0, reserved = 0, exclusive = 1\<rparr> = 0"
proof -
  have a: "add_lock (LockSystem_init ''db'') ''exclusive'' None =
      Inr (True, \<lparr>ls_name = ''db'', shared = 0, reserved = 0, exclusive = 1\<rparr>)"
    by (simp add: add_lock_def add_exclusive_def has_exclusive_def has_shared_def
        has_reserved_def LockSystem_init_def)
  have r: "lock_run \<lparr>ls_name = ''db'', shared = 0, reserved = 0, exclusive = 1\<rparr>
     ((\<lambda>_. None)(0 := Some ''exclusive''))"
    using lock_run.added[OF lock_run.fresh[of "''db''"] _ a, where c = 0] by simp
  show ?thesis using lock_counters_invariant[OF r] r by simp
qed

section \<open>Equality of values\<close>

text \<open>Python's \<^verbatim>\<open>==\<close> on these values is an equivalence, so membership in a set of them is well behaved.\<close>

lemma py_eq_list_all2: "py_eq_list xs ys = list_all2 py_eq xs ys"
proof (induction xs arbitrary: ys)
  case Nil
  then show ?case by (cases ys) simp_all
next
  case (Cons x xs)
  then show ?case by (cases ys) simp_all
qed

lemma py_eq_sym: "py_eq a b \<Longrightarrow> py_eq b a"
proof (induction a arbitrary: b)
  case (PTuple xs)
  then obtain ys where b: "b = PTuple ys" by (cases b) simp_all
  with PTuple.prems have "list_all2 py_eq xs ys" by (simp add: py_eq_list_all2)
  then have "list_all2 py_eq ys xs"
    using PTuple.IH
  proof (induction xs ys rule: list_all2_induct)
    case Nil
    then show ?case by simp
  next
    case (Cons x xs y ys)
    then show ?case by simp
  qed
  with b show ?case by (simp add: py_eq_list_all2)
qed (case_tac b; simp)+

lemma py_eq_trans: "py_eq a b \<Longrightarrow> py_eq b c \<Longrightarrow> py_eq a c"
proof (induction a arbitrary: b c)
  case (PTuple xs)
  then obtain ys where b: "b = PTuple ys" by (cases b) simp_all
  with PTuple.prems obtain zs where c: "c = PTuple zs" by (cases c) simp_all
  from PTuple.prems b c have "list_all2 py_eq xs ys" and "list_all2 py_eq ys zs"
    by (simp_all add: py_eq_list_all2)
  then have "list_all2 py_eq xs zs"
    using PTuple.IH
  proof (induction xs ys arbitrary: zs rule: list_all2_induct)
    case Nil
    then show ?case by simp
  next
    case (Cons x xs y ys)
    from Cons.prems(1) obtain z zs' where zs: "zs = z # zs'" and yz: "py_eq y z"
      and rest: "list_all2 py_eq ys zs'"
      by (cases zs) auto
    have "py_eq x z" using Cons.prems(2)[of x y z] Cons.hyps(1) yz by simp
    moreover have "list_all2 py_eq xs zs'" using Cons.IH[OF rest] Cons.prems(2) by simp
    ultimately show ?case using zs by simp
  qed
  with c show ?case by (simp add: py_eq_list_all2)
qed (case_tac b; case_tac c; simp)+

lemma py_in_append: "py_in x (xs @ ys) \<longleftrightarrow> py_in x xs \<or> py_in x ys"
  by (simp add: py_in_def list_ex_iff) blast

lemma py_in_iff: "py_in x xs \<longleftrightarrow> (\<exists>y \<in> set xs. py_eq x y)"
  by (simp add: py_in_def list_ex_iff)

lemma py_in_cong: "py_eq x y \<Longrightarrow> py_in x xs \<longleftrightarrow> py_in y xs"
  unfolding py_in_iff by (meson py_eq_sym py_eq_trans)

lemma py_eq_refl: "py_eq a a"
proof (induction a)
  case (PTuple xs)
  then have "list_all2 py_eq xs xs" by (simp add: list_all2_same)
  then show ?case by (simp add: py_eq_list_all2)
qed simp_all

lemma py_get_nth: "j < length xs \<Longrightarrow> py_get xs (int j) = Some (xs ! j)"
  by (simp add: py_get_def)

section \<open>Rows, tables and views\<close>

subsection \<open>IS and IS NOT\<close>

lemma check_row_is:
  "i < length (data r) \<Longrightarrow> check_row r n i (PStr ''IS'') PNone = Inr (\<not> truthy (data r ! i))"
  by (simp add: check_row_def py_get_nth)

lemma check_row_is_not:
  "i < length (data r) \<Longrightarrow> check_row r n i (PStr ''IS NOT'') PNone = Inr (truthy (data r ! i))"
  by (simp add: check_row_def py_get_nth)

text \<open>
  C3. The claim: \<^verbatim>\<open>(column, IS, null)\<close> matches exactly the rows whose cell is null and
  \<^verbatim>\<open>(column, IS NOT, null)\<close> exactly those whose cell is not, also for the cells 0, 0.0
  and the empty string. \<^verbatim>\<open>check_row\<close> tests the truth value of the cell instead
  (\<^verbatim>\<open>not column_value\<close>), so in the row \<^verbatim>\<open>(0, 0.0, '')\<close> every column passes IS and
  none passes IS NOT, although no cell is null.
\<close>

theorem check_row_is_matches_falsy_cells:
  "check_row (Row_init [PInt 0, PFloat 0, PStr []]) (PStr ''a'') 0 (PStr ''IS'') PNone = Inr True \<and>
   check_row (Row_init [PInt 0, PFloat 0, PStr []]) (PStr ''b'') 1 (PStr ''IS'') PNone = Inr True \<and>
   check_row (Row_init [PInt 0, PFloat 0, PStr []]) (PStr ''c'') 2 (PStr ''IS'') PNone = Inr True \<and>
   check_row (Row_init [PInt 0, PFloat 0, PStr []]) (PStr ''a'') 0 (PStr ''IS NOT'') PNone = Inr False \<and>
   check_row (Row_init [PInt 0, PFloat 0, PStr []]) (PStr ''b'') 1 (PStr ''IS NOT'') PNone = Inr False \<and>
   check_row (Row_init [PInt 0, PFloat 0, PStr []]) (PStr ''c'') 2 (PStr ''IS NOT'') PNone = Inr False"
  by (simp add: check_row_def Row_init_def py_get_def)

subsection \<open>Positional inserts\<close>

lemma pad_to_size_none: "length values \<le> n \<Longrightarrow> pad_to_size values n = Some values"
  by (subst pad_to_size.simps) simp

lemma insert_row_longer:
  "length values > column_size t \<Longrightarrow> insert_row t (ListValues values) insertion_columns = Returns t"
  by (simp add: insert_row_def)

lemma insert_row_shorter:
  "length values < column_size t \<Longrightarrow> type_check (zip values (dict_values (schema t))) \<Longrightarrow>
   insert_row t (ListValues values) None = Returns (append_row t values)"
  by (simp add: insert_row_def pad_to_size_none)

text \<open>
  C4. The claim: a positional insert with fewer values than the table has columns stores
  the row padded with null to the width of the schema, and one with more values leaves
  the table as it is. The second half holds (\<open>insert_row_longer\<close>). For the first, the
  padding loop of \<^verbatim>\<open>insert_row\<close> tests \<^verbatim>\<open>len(values) - self.column_size > 0\<close>, which is
  false for a short list, so nothing is appended: in the table made by
  \<^verbatim>\<open>CREATE TABLE t (a INTEGER, b INTEGER)\<close> the insert of \<^verbatim>\<open>(1)\<close> stores a row of one cell.
\<close>

theorem insert_row_short_list_not_padded:
  "Table_init (PStr ''t'') [PStr ''a'', PStr ''INTEGER'', PStr '','', PStr ''b'', PStr ''INTEGER''] =
     Returns \<lparr>tb_name = PStr ''t'',
       schema = [(PStr ''a'', PStr ''INTEGER''), (PStr ''b'', PStr ''INTEGER'')],
       column_names = [PStr ''a'', PStr ''b''], default_values = [], column_size = 2,
       rows = [], tb_size = 0, view = None\<rparr> \<and>
   insert_row \<lparr>tb_name = PStr ''t'',
       schema = [(PStr ''a'', PStr ''INTEGER''), (PStr ''b'', PStr ''INTEGER'')],
       column_names = [PStr ''a'', PStr ''b''], default_values = [], column_size = 2,
       rows = [], tb_size = 0, view = None\<rparr> (ListValues [PInt 1]) None =
     Returns \<lparr>tb_name = PStr ''t'',
       schema = [(PStr ''a'', PStr ''INTEGER''), (PStr ''b'', PStr ''INTEGER'')],
       column_names = [PStr ''a'', PStr ''b''], default_values = [], column_size = 2,
       rows = [\<lparr>data = [PInt 1], rw_size = 1, primary_key = PNone\<rparr>], tb_size = 1,
       view = None\<rparr>"
  by (simp add: Table_init_def schema_loop.simps default_loop.simps py_get_def py_in_def
      py_slice_from_def slice_bound_def dict_keys_def insert_row_def pad_to_size.simps
      dict_values_def append_row_def Row_init_def)

subsection \<open>The schema of a view\<close>

text \<open>
  C5. The claim: the schema of a view is the backing schema without qualification,
  restricted to the declared columns in their order, also when the view is over a join
  and its columns are declared as \<^verbatim>\<open>table.col\<close>. \<^verbatim>\<open>View.__init__\<close> strips the
  qualification from the backing schema only and then looks the declared names up as
  they are written, so a qualified declared column is never found: for the view of
  \<^verbatim>\<open>SELECT names.name, grades.grade FROM names LEFT OUTER JOIN grades ...\<close> the schema
  is empty, where the description gives \<^verbatim>\<open>name\<close> and \<^verbatim>\<open>grade\<close>.
\<close>

theorem view_schema_of_qualified_columns_empty:
  "View_init (PStr ''v'') (PStr ''JoinedTable'') [PStr ''names.name'', PStr ''grades.grade'']
     [(PStr ''names.name'', PStr ''TEXT''), (PStr ''names.id'', PStr ''INTEGER''),
      (PStr ''grades.id'', PStr ''INTEGER''), (PStr ''grades.grade'', PStr ''REAL'')] stmt =
   Returns \<lparr>tb_name = PStr ''v'', schema = [], column_names = [], default_values = [],
     column_size = 0, rows = [], tb_size = 0,
     view = Some \<lparr>vw_statement = stmt, vw_columns = [PStr ''names.name'', PStr ''grades.grade''],
       vw_table_name = PStr ''JoinedTable''\<rparr>\<rparr> \<and>
   spec_view_schema [PStr ''names.name'', PStr ''grades.grade'']
     [(PStr ''names.name'', PStr ''TEXT''), (PStr ''names.id'', PStr ''INTEGER''),
      (PStr ''grades.id'', PStr ''INTEGER''), (PStr ''grades.grade'', PStr ''REAL'')] =
   [(PStr ''name'', PStr ''TEXT''), (PStr ''grade'', PStr ''REAL'')]"
  by (simp add: View_init_def Table_init_def schema_loop.simps default_loop.simps py_in_def
      py_slice_from_def slice_bound_def dict_keys_def str_contains_def py_find_def
      spec_view_schema_def)

section \<open>The tokenizer\<close>

lemma tokenize_float_with_point: "tokenize ''1.5E3'' = Inr [PFloat 1500]"
  by code_simp

text \<open>
  C8. The claim: a numeric literal becomes a real token when it contains \<^verbatim>\<open>.\<close> or the
  exponent marker \<^verbatim>\<open>E\<close> and an integer token otherwise, and tokenizing it never fails.
  \<^verbatim>\<open>remove_num\<close> collects \<^verbatim>\<open>E\<close> into the literal but decides between \<^verbatim>\<open>float\<close> and
  \<^verbatim>\<open>int\<close> on the point alone, so \<^verbatim>\<open>1E5\<close> goes to \<^verbatim>\<open>int("1E5")\<close>, which raises
  ValueError.
\<close>

theorem tokenize_exponent_literal_fails:
  "tokenize ''SELECT * FROM t WHERE x = 1E5;'' = Inl ValueError"
  by code_simp

section \<open>Projection under DISTINCT\<close>

lemma is_distinct_single: "is_distinct (Some [d]) x = Inr (py_eq x d)"
  by (simp add: is_distinct_def py_get_def)

lemma spec_cells_no_distinct:
  "i \<notin> set js \<Longrightarrow> spec_distinct_cells i omit r js = spec_distinct_cells i omit' r js"
  by (induction js arbitrary: omit omit') auto

lemma slim_record_distinct:
  assumes "\<forall>j \<in> set js. j < length (column_names table) \<and> j < length r \<and>
             (py_eq (column_names table ! j) d \<longleftrightarrow> j = i)"
  shows "slim_record table (Some [d]) r (map ColIndex js) acc seen =
           Inr (acc @ spec_distinct_cells i (py_in (r ! i) seen) r js,
                if i \<in> set js \<and> \<not> py_in (r ! i) seen then seen @ [r ! i] else seen)"
  using assms
proof (induction js arbitrary: acc seen)
  case Nil
  show ?case by simp
next
  case (Cons j js)
  from Cons.prems have j: "j < length (column_names table)" "j < length r"
    and dj: "py_eq (column_names table ! j) d \<longleftrightarrow> j = i"
    and rest: "\<forall>j \<in> set js. j < length (column_names table) \<and> j < length r \<and>
             (py_eq (column_names table ! j) d \<longleftrightarrow> j = i)"
    by simp_all
  note IH = Cons.IH[OF rest]
  show ?case
  proof (cases "j = i")
    case False
    with j dj show ?thesis
      by (simp add: py_get_nth is_distinct_single IH)
  next
    case True
    show ?thesis
    proof (cases "py_in (r ! i) seen")
      case seen: True
      with True j dj show ?thesis
        by (simp add: py_get_nth is_distinct_single IH)
    next
      case unseen: False
      have "py_in (r ! i) (seen @ [r ! i])"
        by (simp add: py_in_append py_in_def py_eq_refl)
      with unseen True j dj show ?thesis
        by (simp add: py_get_nth is_distinct_single IH)
    qed
  qed
qed


lemma seen_step:
  assumes inv: "\<And>x. py_in x seen \<longleftrightarrow> list_ex (\<lambda>r. py_eq (r ! i) x) earlier"
  shows "py_in x (if \<not> py_in (r ! i) seen then seen @ [r ! i] else seen) \<longleftrightarrow>
         list_ex (\<lambda>r. py_eq (r ! i) x) (earlier @ [r])"
proof (cases "py_in (r ! i) seen")
  case False
  then show ?thesis
    using inv[of x] by (auto simp: py_in_append py_in_def dest: py_eq_sym)
next
  case True
  have "py_eq (r ! i) x \<Longrightarrow> py_in x seen"
    using True py_in_cong[of "r ! i" x seen] by simp
  with True show ?thesis using inv[of x] by auto
qed

lemma slim_result_distinct_general:
  assumes "\<forall>j \<in> set js. j < length (column_names table) \<and>
             (py_eq (column_names table ! j) d \<longleftrightarrow> j = i)"
    and "\<forall>r \<in> set result. \<forall>j \<in> set js. j < length r"
    and "\<And>x. py_in x seen \<longleftrightarrow> list_ex (\<lambda>r. py_eq (r ! i) x) earlier"
  shows "slim_result table (Some [d]) (map ColIndex js) result seen =
           Inr (filter (\<lambda>row. row \<noteq> []) (spec_distinct_rows i js earlier result))"
  using assms(2,3)
proof (induction result arbitrary: seen earlier)
  case Nil
  show ?case by simp
next
  case (Cons r result)
  have cols: "\<forall>j \<in> set js. j < length (column_names table) \<and> j < length r \<and>
             (py_eq (column_names table ! j) d \<longleftrightarrow> j = i)"
    using assms(1) Cons.prems(1) by simp
  have sr: "slim_record table (Some [d]) r (map ColIndex js) [] seen =
           Inr (spec_distinct_cells i (py_in (r ! i) seen) r js,
                if i \<in> set js \<and> \<not> py_in (r ! i) seen then seen @ [r ! i] else seen)"
    using slim_record_distinct[OF cols, of "[]" seen] by simp
  have omit: "py_in (r ! i) seen \<longleftrightarrow> list_ex (\<lambda>r'. py_eq (r' ! i) (r ! i)) earlier"
    by (rule Cons.prems(2))
  have rest: "\<forall>r \<in> set result. \<forall>j \<in> set js. j < length r"
    using Cons.prems(1) by simp
  show ?case
  proof (cases "i \<in> set js")
    case True
    have inv': "\<And>x. py_in x (if \<not> py_in (r ! i) seen then seen @ [r ! i] else seen) \<longleftrightarrow>
         list_ex (\<lambda>r. py_eq (r ! i) x) (earlier @ [r])"
      by (rule seen_step) (rule Cons.prems(2))
    have "slim_result table (Some [d]) (map ColIndex js) result
            (if \<not> py_in (r ! i) seen then seen @ [r ! i] else seen) =
          Inr (filter (\<lambda>row. row \<noteq> []) (spec_distinct_rows i js (earlier @ [r]) result))"
      by (rule Cons.IH[OF rest inv'])
    with sr omit True show ?thesis by simp
  next
    case False
    have a: "\<And>e e'. spec_distinct_rows i js e result = spec_distinct_rows i js e' result"
    proof -
      fix e e' show "spec_distinct_rows i js e result = spec_distinct_rows i js e' result"
        using False
        by (induction result arbitrary: e e') (auto intro: spec_cells_no_distinct)
    qed
    have "slim_result table (Some [d]) (map ColIndex js) result seen =
          Inr (filter (\<lambda>row. row \<noteq> []) (spec_distinct_rows i js earlier result))"
      by (rule Cons.IH[OF rest Cons.prems(2)])
    with sr omit False a[of "earlier @ [r]" earlier] show ?thesis by simp
  qed
qed


lemma first_index_bound: "first_index x xs k = Some i \<Longrightarrow> k \<le> i \<and> i < k + length xs"
proof (induction xs arbitrary: k)
  case Nil
  then show ?case by simp
next
  case (Cons y ys)
  show ?case
  proof (cases "py_eq y x")
    case True
    with Cons.prems show ?thesis by simp
  next
    case False
    with Cons.prems have "first_index x ys (Suc k) = Some i" by simp
    from Cons.IH[OF this] show ?thesis by simp
  qed
qed

lemma collect_indices_bound:
  "collect_indices table columns = Inr ixs \<Longrightarrow> ColIndex j \<in> set ixs \<Longrightarrow>
   j < length (column_names table)"
proof (induction columns arbitrary: ixs)
  case Nil
  then show ?case by simp
next
  case (Cons name names)
  show ?case
  proof (cases "py_index (column_names table) name")
    case (Some i)
    with Cons.prems(1) obtain ixs' where c: "collect_indices table names = Inr ixs'"
      and ixs: "ixs = ColIndex i # ixs'"
      by (cases "collect_indices table names") auto
    from Some have "i < length (column_names table)"
      using first_index_bound[of name "column_names table" 0 i] by (simp add: py_index_def)
    with Cons.IH[OF c] Cons.prems(2) ixs show ?thesis by auto
  next
    case None
    with Cons.prems show ?thesis
      by (cases "collect_indices table names")
        (auto split: sum.splits bool.splits dest: Cons.IH)
  qed
qed

lemma select_projects_retained:
  "columns \<noteq> [] \<Longrightarrow>
   select table columns distinct_columns conditions order =
     (case retained_records table conditions order of
        Inl e \<Rightarrow> Inl e
      | Inr result \<Rightarrow>
          (case collect_indices table columns of
             Inl e \<Rightarrow> Inl e
           | Inr columns_index \<Rightarrow> slim_result table distinct_columns columns_index result []))"
  by (simp add: select_def retained_records_def split: sum.splits option.splits prod.splits)

text \<open>
  C10. Take a SELECT DISTINCT whose projection \<^verbatim>\<open>columns\<close> names columns of the table
  (positions \<^verbatim>\<open>js\<close>), with the DISTINCT column \<^verbatim>\<open>d\<close> at position \<^verbatim>\<open>i\<close>, and let
  \<^verbatim>\<open>result\<close> be the retained records, each wide enough for the projection. Then the
  output has, for every retained record in order, all its projected cells except that
  the cell of the DISTINCT column is left out when an earlier retained record has an
  equal value there; and a record is dropped exactly when no cell is left.
\<close>

theorem select_distinct_projection:
  assumes "columns \<noteq> []"
    and "collect_indices table columns = Inr (map ColIndex js)"
    and "retained_records table conditions order = Inr result"
    and "\<forall>j \<in> set js. py_eq (column_names table ! j) d \<longleftrightarrow> j = i"
    and "\<forall>r \<in> set result. \<forall>j \<in> set js. j < length r"
  shows "select table columns (Some [d]) conditions order =
           Inr (filter (\<lambda>row. row \<noteq> []) (spec_distinct_rows i js [] result))"
proof -
  have "\<forall>j \<in> set js. j < length (column_names table) \<and>
             (py_eq (column_names table ! j) d \<longleftrightarrow> j = i)"
    using assms(4) collect_indices_bound[OF assms(2)] by auto
  then have "slim_result table (Some [d]) (map ColIndex js) result [] =
           Inr (filter (\<lambda>row. row \<noteq> []) (spec_distinct_rows i js [] result))"
    using assms(5) by (rule slim_result_distinct_general) (simp add: py_in_def)
  then show ?thesis
    using assms(1,2,3) by (simp add: select_projects_retained)
qed

theorem select_distinct_projection_witness:
  "select \<lparr>tb_name = PStr ''t'', schema = [(PStr ''a'', PStr ''INTEGER''), (PStr ''b'', PStr ''TEXT'')],
      column_names = [PStr ''a'', PStr ''b''], default_values = [], column_size = 2,
      rows = [Row_init [PInt 1, PStr ''x''], Row_init [PInt 1, PStr ''y''], Row_init [PInt 2, PStr ''z'']],
      tb_size = 3, view = None\<rparr>
     [PStr ''a'', PStr ''b''] (Some [PStr ''a'']) None None =
     Inr [[PInt 1, PStr ''x''], [PStr ''y''], [PInt 2, PStr ''z'']] \<and>
   select \<lparr>tb_name = PStr ''t'', schema = [(PStr ''a'', PStr ''INTEGER''), (PStr ''b'', PStr ''TEXT'')],
      column_names = [PStr ''a'', PStr ''b''], default_values = [], column_size = 2,
      rows = [Row_init [PInt 1, PStr ''x''], Row_init [PInt 1, PStr ''y''], Row_init [PInt 2, PStr ''z'']],
      tb_size = 3, view = None\<rparr>
     [PStr ''a''] (Some [PStr ''a'']) None None =
     Inr [[PInt 1], [PInt 2]]"
proof -
  define t where "t = \<lparr>tb_name = PStr ''t'',
      schema = [(PStr ''a'', PStr ''INTEGER''), (PStr ''b'', PStr ''TEXT'')],
      column_names = [PStr ''a'', PStr ''b''], default_values = [], column_size = 2,
      rows = [Row_init [PInt 1, PStr ''x''], Row_init [PInt 1, PStr ''y''], Row_init [PInt 2, PStr ''z'']],
      tb_size = 3, view = None\<rparr>"
  define result where "result = [[PInt 1, PStr ''x''], [PInt 1, PStr ''y''], [PInt 2, PStr ''z'']]"
  have ret: "retained_records t None None = Inr result"
    by (simp add: retained_records_def t_def result_def Row_init_def)
  have ci2: "collect_indices t [PStr ''a'', PStr ''b''] = Inr (map ColIndex [0, 1])"
    by (simp add: t_def py_index_def)
  have ci1: "collect_indices t [PStr ''a''] = Inr (map ColIndex [0])"
    by (simp add: t_def py_index_def)
  have d2: "\<forall>j \<in> set [0, 1]. py_eq (column_names t ! j) (PStr ''a'') \<longleftrightarrow> j = 0"
    by (simp add: t_def)
  have d1: "\<forall>j \<in> set [0]. py_eq (column_names t ! j) (PStr ''a'') \<longleftrightarrow> j = 0"
    by (simp add: t_def)
  have w2: "\<forall>r \<in> set result. \<forall>j \<in> set [0, 1]. j < length r"
    by (simp add: result_def)
  have w1: "\<forall>r \<in> set result. \<forall>j \<in> set [0]. j < length r"
    by (simp add: result_def)
  have "select t [PStr ''a'', PStr ''b''] (Some [PStr ''a'']) None None =
      Inr (filter (\<lambda>row. row \<noteq> []) (spec_distinct_rows 0 [0, 1] [] result))"
    using select_distinct_projection[OF _ ci2 ret d2 w2] by simp
  moreover have "select t [PStr ''a''] (Some [PStr ''a'']) None None =
      Inr (filter (\<lambda>row. row \<noteq> []) (spec_distinct_rows 0 [0] [] result))"
    using select_distinct_projection[OF _ ci1 ret d1 w1] by simp
  ultimately show ?thesis
    unfolding t_def[symmetric] by (simp add: result_def)
qed


end
